theory Spec2Isabelle
  imports Complex_Main "HOL-Library.AList" "HOL-Library.Char_ord" "HOL-Library.List_Lexorder"
begin

section \<open>Python values, exceptions and call logs\<close>

text \<open>
  The model of \<^verbatim>\<open>farm/modeling/biadaptive_model.py\<close>. Every exception the module can
  raise is a value: a function that can raise returns \<open>error + 'r\<close>, with \<open>Inl\<close> for
  the exception. The constructors are the Python exception classes; the string is the
  message (or the name or key the exception is about).
\<close>

datatype error =
    ValueError string
  | AssertionError string
  | KeyError string
  | NameError string
  | UnboundLocalError string
  | TypeError string
  | IndexError string
  | AttributeError string
  | RuntimeError string
  | ModuleNotFoundError string
  | FileNotFoundError string
  | OSError string
  | Exception string

definition ebind :: "error + 'x \<Rightarrow> ('x \<Rightarrow> error + 'y) \<Rightarrow> error + 'y" where
  "ebind m f = (case m of Inl e \<Rightarrow> Inl e | Inr x \<Rightarrow> f x)"

text \<open>
  Python is dynamically typed, and several functions of the module look at the shape of
  what they are given (\<^verbatim>\<open>type(preds) == list\<close>, \<^verbatim>\<open>kwargs["preds"]\<close>, \<^verbatim>\<open>b.samples\<close>).
  A value is \<^verbatim>\<open>None\<close>, a string, a list, a tuple, a \<^verbatim>\<open>dict\<close> with string keys, an
  object with attributes, or an object the module never looks into (a tensor, a
  prediction, a sample), of type \<open>'a\<close>: such an object can be passed on, but it cannot
  be iterated over or subscripted and has no attribute the module reads.
\<close>

datatype 'a pyval =
    PyNone
  | PyStr string
  | PyOpaque 'a
  | PyList "'a pyval list"
  | PyTuple "'a pyval list"
  | PyDict "(string \<times> 'a pyval) list"
  | PyObject "(string \<times> 'a pyval) list"

type_synonym 'a kwargs = "(string \<times> 'a pyval) list"

text \<open>
  The calls a method makes on its collaborators, in order. Encoders are numbered 1 and 2
  as in the source (\<^verbatim>\<open>language_model1\<close>, \<^verbatim>\<open>language_model2\<close>), heads by their index in
  \<^verbatim>\<open>self.prediction_heads\<close>.
\<close>

datatype call =
    EncoderForward nat
  | HeadForward nat
  | EncoderFormattedPreds nat
  | HeadFormattedPreds nat
  | HeadLogitsToLoss nat
  | ClassLoad string

section \<open>The collaborators: encoders and prediction heads\<close>

text \<open>
  \<^verbatim>\<open>LanguageModel\<close> and \<^verbatim>\<open>PredictionHead\<close> are imported, not defined, by the module. An
  object is a record of its attributes and of its methods as functions. A call of a
  collaborator's method returns; what the module itself does around the call is modelled
  in full.
\<close>

record 'a language_model =
  lm_config :: string
  lm_name :: string
  language :: string
  lm_device :: "string option"
  lm_output_dims :: nat
  lm_forward :: "'a kwargs \<Rightarrow> 'a \<times> 'a"
  lm_formatted_preds :: "'a pyval \<Rightarrow> 'a kwargs \<Rightarrow> 'a pyval"

text \<open>
  \<open>label_tensor_name\<close>, \<open>label_list\<close> and \<open>metric\<close> are attributes that
  \<^verbatim>\<open>connect_heads_with_processor\<close> sets: \<open>None\<close> is the attribute being absent
  (\<^verbatim>\<open>hasattr\<close> is false). \<open>merge_formatted_preds\<close> is the optional method of that name.
  The loss of a head is one number per sample, a tensor of shape (batch size).
\<close>

record ('a, 'n) prediction_head =
  ph_config :: string
  task_name :: string
  ph_output_type :: string
  ph_device :: "string option"
  label_tensor_name :: "string option"
  label_list :: "string list option"
  metric :: "string option"
  ph_forward :: "'a \<Rightarrow> 'a \<Rightarrow> 'a pyval"
  ph_logits_to_loss :: "'a pyval \<Rightarrow> 'a kwargs \<Rightarrow> 'n list"
  ph_logits_to_preds :: "'a pyval \<Rightarrow> 'a kwargs \<Rightarrow> 'a pyval"
  ph_formatted_preds :: "'a pyval \<Rightarrow> 'a kwargs \<Rightarrow> 'a pyval"
  merge_formatted_preds :: "('a pyval \<Rightarrow> 'a pyval) option"

definition lm_to :: "string \<Rightarrow> 'a language_model \<Rightarrow> 'a language_model" where
  "lm_to dev lm = lm\<lparr>lm_device := Some dev\<rparr>"

definition ph_to :: "string \<Rightarrow> ('a, 'n) prediction_head \<Rightarrow> ('a, 'n) prediction_head" where
  "ph_to dev ph = ph\<lparr>ph_device := Some dev\<rparr>"

section \<open>Loss values and the default aggregation\<close>

text \<open>
  \<^verbatim>\<open>loss_per_head_sum\<close> is Python's \<^verbatim>\<open>sum\<close>: it starts from the integer \<open>0\<close> and adds
  the elements from the left. A loss value is a plain number or a one-dimensional tensor.
  Adding a number to a tensor adds it to every element; adding two tensors adds them
  element by element when the sizes agree, broadcasts a tensor of size one, and raises
  \<^verbatim>\<open>RuntimeError\<close> on any other pair of sizes, as torch does.
\<close>

datatype 'n loss_val = Scalar 'n | Vec "'n list"

definition size_mismatch :: string where
  "size_mismatch = ''The size of tensor a must match the size of tensor b''"

fun loss_add :: "('n::plus) loss_val \<Rightarrow> 'n loss_val \<Rightarrow> error + 'n loss_val" where
  "loss_add (Scalar a) (Scalar b) = Inr (Scalar (a + b))"
| "loss_add (Scalar a) (Vec v) = Inr (Vec (map (\<lambda>x. a + x) v))"
| "loss_add (Vec u) (Scalar b) = Inr (Vec (map (\<lambda>x. x + b) u))"
| "loss_add (Vec u) (Vec v) =
     (if length u = length v then Inr (Vec (map2 (+) u v))
      else if length u = 1 then Inr (Vec (map (\<lambda>x. hd u + x) v))
      else if length v = 1 then Inr (Vec (map (\<lambda>x. x + hd v) u))
      else Inl (RuntimeError size_mismatch))"

fun py_sum_from :: "('n::plus) loss_val \<Rightarrow> 'n list list \<Rightarrow> error + 'n loss_val" where
  "py_sum_from acc [] = Inr acc"
| "py_sum_from acc (t # ts) = ebind (loss_add acc (Vec t)) (\<lambda>acc'. py_sum_from acc' ts)"

definition loss_per_head_sum ::
  "('n::{zero,plus}) list list \<Rightarrow> int option \<Rightarrow> 'a kwargs \<Rightarrow> error + 'n loss_val" where
  "loss_per_head_sum loss_per_head global_step batch = py_sum_from (Scalar 0) loss_per_head"

section \<open>BiAdaptiveModel: construction\<close>

text \<open>
  \<^verbatim>\<open>nn.Dropout\<close> draws a fresh mask at every call in training mode: \<open>dropout1 m i x\<close> is
  what the \<open>i\<close>-th call of \<^verbatim>\<open>self.dropout1\<close> in a forward pass returns for \<open>x\<close>.
\<close>

type_synonym 'a dropout = "nat \<Rightarrow> 'a \<Rightarrow> 'a"

type_synonym ('a, 'n) aggregation = "'n list list \<Rightarrow> int option \<Rightarrow> 'a kwargs \<Rightarrow> error + 'n loss_val"

record ('a, 'n) BiAdaptiveModel =
  device :: string
  language_model1 :: "'a language_model"
  lm1_output_dims :: nat
  language_model2 :: "'a language_model"
  lm2_output_dims :: nat
  prediction_heads :: "('a, 'n) prediction_head list"
  dropout1 :: "'a dropout"
  dropout2 :: "'a dropout"
  lm1_output_types :: "string list"
  lm2_output_types :: "string list"
  loss_aggregation_fn :: "('a, 'n) aggregation"

text \<open>
  The extraction modes are given as one string or as a list of strings; an argument left
  out is \<open>None\<close> and takes the default of the signature, the one-element list
  \<^verbatim>\<open>["per_sequence"]\<close>. A single string is wrapped into a one-element list.
  \<^verbatim>\<open>log_params\<close>, which \<^verbatim>\<open>__init__\<close> calls, reports the parameters to the logger and
  changes nothing of the model.
\<close>

datatype output_types_arg = OneStr string | StrList "string list"

definition default_output_types :: output_types_arg where
  "default_output_types = StrList [''per_sequence'']"

fun as_output_types :: "output_types_arg \<Rightarrow> string list" where
  "as_output_types (OneStr s) = [s]"
| "as_output_types (StrList ss) = ss"

definition BiAdaptiveModel_init ::
  "(real \<Rightarrow> 'a dropout) \<Rightarrow> 'a language_model \<Rightarrow> 'a language_model \<Rightarrow>
   ('a, 'n::{zero,plus}) prediction_head list \<Rightarrow> real \<Rightarrow> string \<Rightarrow>
   output_types_arg option \<Rightarrow> output_types_arg option \<Rightarrow> ('a, 'n) aggregation option \<Rightarrow>
   ('a, 'n) BiAdaptiveModel" where
  "BiAdaptiveModel_init nn_Dropout lm1 lm2 heads embeds_dropout_prob dev
       lm1_types_arg lm2_types_arg loss_aggregation_arg =
     \<lparr> device = dev,
       language_model1 = lm_to dev lm1,
       lm1_output_dims = lm_output_dims lm1,
       language_model2 = lm_to dev lm2,
       lm2_output_dims = lm_output_dims lm2,
       prediction_heads = map (ph_to dev) heads,
       dropout1 = nn_Dropout embeds_dropout_prob,
       dropout2 = nn_Dropout embeds_dropout_prob,
       lm1_output_types =
         as_output_types (case lm1_types_arg of None \<Rightarrow> default_output_types | Some t \<Rightarrow> t),
       lm2_output_types =
         as_output_types (case lm2_types_arg of None \<Rightarrow> default_output_types | Some t \<Rightarrow> t),
       loss_aggregation_fn =
         (case loss_aggregation_arg of None \<Rightarrow> loss_per_head_sum | Some f \<Rightarrow> f) \<rparr>"

section \<open>BiAdaptiveModel: the forward pass\<close>

definition forward_lm :: "('a, 'n) BiAdaptiveModel \<Rightarrow> 'a kwargs \<Rightarrow> 'a \<times> 'a" where
  "forward_lm m kwargs =
     (let (pooled_output1, hidden_states1) = lm_forward (language_model1 m) kwargs;
          (pooled_output2, hidden_states2) = lm_forward (language_model2 m) kwargs
      in (pooled_output1, pooled_output2))"

definition valid_mode :: "string \<Rightarrow> bool" where
  "valid_mode lm_out = (lm_out = ''per_sequence'' \<or> lm_out = ''per_sequence_continuous'')"

definition unknown_strategy :: "string \<Rightarrow> error" where
  "unknown_strategy lm_out = ValueError (''Unknown extraction strategy from DPR model: '' @ lm_out)"

text \<open>
  The loop of \<^verbatim>\<open>forward\<close> over \<^verbatim>\<open>zip(prediction_heads, lm1_output_types, lm2_output_types)\<close>:
  \<open>i\<close> is the index of the head at the front, \<open>calls\<close> the calls made so far and
  \<open>all_logits\<close> the list built so far.
\<close>

fun forward_heads ::
  "'a dropout \<Rightarrow> 'a dropout \<Rightarrow> 'a \<Rightarrow> 'a \<Rightarrow> nat \<Rightarrow>
   (('a, 'n) prediction_head \<times> string \<times> string) list \<Rightarrow> call list \<Rightarrow> 'a pyval list \<Rightarrow>
   call list \<times> (error + 'a pyval list)" where
  "forward_heads d1 d2 pooled_output1 pooled_output2 i [] calls all_logits = (calls, Inr all_logits)"
| "forward_heads d1 d2 pooled_output1 pooled_output2 i ((head, lm1_out, lm2_out) # rest) calls all_logits =
     (if valid_mode lm1_out then
        (let output1 = d1 i pooled_output1 in
         if valid_mode lm2_out then
           (let output2 = d2 i pooled_output2 in
            forward_heads d1 d2 pooled_output1 pooled_output2 (Suc i) rest
              (calls @ [HeadForward i]) (all_logits @ [ph_forward head output1 output2]))
         else (calls, Inl (unknown_strategy lm2_out)))
      else (calls, Inl (unknown_strategy lm1_out)))"

definition forward :: "('a, 'n) BiAdaptiveModel \<Rightarrow> 'a kwargs \<Rightarrow> call list \<times> (error + 'a pyval)" where
  "forward m kwargs =
     (let (pooled_output1, pooled_output2) = forward_lm m kwargs;
          calls = [EncoderForward 1, EncoderForward 2]
      in if length (prediction_heads m) > 0 then
           (case forward_heads (dropout1 m) (dropout2 m) pooled_output1 pooled_output2 0
                   (zip (prediction_heads m) (zip (lm1_output_types m) (lm2_output_types m))) calls []
            of (calls', r) \<Rightarrow> (calls', map_sum id PyList r))
         else (calls, Inr (PyList [PyTuple [PyOpaque pooled_output1, PyOpaque pooled_output2]])))"

section \<open>BiAdaptiveModel: losses\<close>

definition not_connected :: "string \<Rightarrow> error" where
  "not_connected task = AssertionError
     (''Label_tensor_names are missing inside the '' @ task @
      '' Prediction Head. Did you connect the model with the processor through either '' @
      [CHR 0x27] @ ''model.connect_heads_with_processor(processor.tasks)'' @ [CHR 0x27] @
      '' or by passing the processor to the Adaptive Model?'')"

text \<open>
  The loop of \<^verbatim>\<open>logits_to_loss_per_head\<close> over \<^verbatim>\<open>zip(self.prediction_heads, logits)\<close>.
  The \<^verbatim>\<open>assert hasattr(head, "label_tensor_name")\<close> comes before the head's own
  \<^verbatim>\<open>logits_to_loss\<close>.
\<close>

fun loss_heads ::
  "'a kwargs \<Rightarrow> nat \<Rightarrow> (('a, 'n) prediction_head \<times> 'a pyval) list \<Rightarrow> call list \<Rightarrow> 'n list list \<Rightarrow>
   call list \<times> (error + 'n list list)" where
  "loss_heads kwargs i [] calls all_losses = (calls, Inr all_losses)"
| "loss_heads kwargs i ((head, logits_for_one_head) # rest) calls all_losses =
     (case label_tensor_name head of
        None \<Rightarrow> (calls, Inl (not_connected (task_name head)))
      | Some _ \<Rightarrow>
          loss_heads kwargs (Suc i) rest (calls @ [HeadLogitsToLoss i])
            (all_losses @ [ph_logits_to_loss head logits_for_one_head kwargs]))"

definition logits_to_loss_per_head ::
  "('a, 'n) BiAdaptiveModel \<Rightarrow> 'a pyval list \<Rightarrow> 'a kwargs \<Rightarrow> call list \<times> (error + 'n list list)" where
  "logits_to_loss_per_head m logits kwargs =
     loss_heads kwargs 0 (zip (prediction_heads m) logits) [] []"

definition logits_to_loss ::
  "('a, 'n) BiAdaptiveModel \<Rightarrow> 'a pyval list \<Rightarrow> int option \<Rightarrow> 'a kwargs \<Rightarrow>
   call list \<times> (error + 'n loss_val)" where
  "logits_to_loss m logits global_step kwargs =
     (case logits_to_loss_per_head m logits kwargs of
        (calls, r) \<Rightarrow> (calls, ebind r (\<lambda>all_losses. loss_aggregation_fn m all_losses global_step kwargs)))"

section \<open>Binding heads to tasks\<close>

record task =
  task_label_tensor_name :: string
  task_label_list :: "string list"
  task_metric :: string

definition missing_labels :: "string \<Rightarrow> error" where
  "missing_labels task = Exception (''The task '' @ task @ '' is missing a valid set of labels'')"

text \<open>
  \<^verbatim>\<open>connect_heads_with_processor\<close> changes the heads in place, one after the other, and
  the first assignment of a head comes before the check of its label list: the function
  returns the heads as they are when it ends, also when it ends in an exception.
\<close>

fun connect_heads ::
  "(string \<times> task) list \<Rightarrow> bool \<Rightarrow> ('a, 'n) prediction_head list \<Rightarrow>
   ('a, 'n) prediction_head list \<times> (error + unit)" where
  "connect_heads tasks require_labels [] = ([], Inr ())"
| "connect_heads tasks require_labels (head # rest) =
     (case map_of tasks (task_name head) of
        None \<Rightarrow> (head # rest, Inl (KeyError (task_name head)))
      | Some t \<Rightarrow>
          (let head1 = head\<lparr>label_tensor_name := Some (task_label_tensor_name t)\<rparr> in
           if task_label_list t = [] \<and> require_labels then
             (head1 # rest, Inl (missing_labels (task_name head)))
           else
             (let head2 = head1\<lparr>label_list := Some (task_label_list t),
                                metric := Some (task_metric t)\<rparr>
              in case connect_heads tasks require_labels rest of
                   (rest', r) \<Rightarrow> (head2 # rest', r))))"

definition connect_heads_with_processor ::
  "('a, 'n) BiAdaptiveModel \<Rightarrow> (string \<times> task) list \<Rightarrow> bool \<Rightarrow>
   ('a, 'n) BiAdaptiveModel \<times> (error + unit)" where
  "connect_heads_with_processor m tasks require_labels =
     (case connect_heads tasks require_labels (prediction_heads m) of
        (heads', r) \<Rightarrow> (m\<lparr>prediction_heads := heads'\<rparr>, r))"

section \<open>Operations on Python values\<close>

fun emap :: "('x \<Rightarrow> error + 'y) \<Rightarrow> 'x list \<Rightarrow> error + 'y list" where
  "emap f [] = Inr []"
| "emap f (x # xs) = ebind (f x) (\<lambda>y. ebind (emap f xs) (\<lambda>ys. Inr (y # ys)))"

definition not_iterable :: "string \<Rightarrow> error" where
  "not_iterable ty = TypeError (ty @ '' object is not iterable'')"

definition not_subscriptable :: "string \<Rightarrow> error" where
  "not_subscriptable ty = TypeError (ty @ '' object is not subscriptable'')"

fun py_iter :: "'a pyval \<Rightarrow> error + 'a pyval list" where
  "py_iter (PyList xs) = Inr xs"
| "py_iter (PyTuple xs) = Inr xs"
| "py_iter (PyDict kvs) = Inr (map (\<lambda>(k, v). PyStr k) kvs)"
| "py_iter (PyStr s) = Inr (map (\<lambda>c. PyStr [c]) s)"
| "py_iter PyNone = Inl (not_iterable ''NoneType'')"
| "py_iter (PyOpaque x) = Inl (not_iterable ''opaque'')"
| "py_iter (PyObject attrs) = Inl (not_iterable ''object'')"

text \<open>\<open>py_getitem0 y\<close> is \<^verbatim>\<open>y[0]\<close>. The keys of a \<^verbatim>\<open>dict\<close> here are strings, never \<open>0\<close>.\<close>

fun py_getitem0 :: "'a pyval \<Rightarrow> error + 'a pyval" where
  "py_getitem0 (PyList []) = Inl (IndexError ''list index out of range'')"
| "py_getitem0 (PyList (x # xs)) = Inr x"
| "py_getitem0 (PyTuple []) = Inl (IndexError ''tuple index out of range'')"
| "py_getitem0 (PyTuple (x # xs)) = Inr x"
| "py_getitem0 (PyStr []) = Inl (IndexError ''string index out of range'')"
| "py_getitem0 (PyStr (c # cs)) = Inr (PyStr [c])"
| "py_getitem0 (PyDict kvs) = Inl (KeyError ''0'')"
| "py_getitem0 PyNone = Inl (not_subscriptable ''NoneType'')"
| "py_getitem0 (PyOpaque x) = Inl (not_subscriptable ''opaque'')"
| "py_getitem0 (PyObject attrs) = Inl (not_subscriptable ''object'')"

definition kw_get :: "'a kwargs \<Rightarrow> string \<Rightarrow> error + 'a pyval" where
  "kw_get kwargs k = (case map_of kwargs k of None \<Rightarrow> Inl (KeyError k) | Some v \<Rightarrow> Inr v)"

fun py_getattr :: "'a pyval \<Rightarrow> string \<Rightarrow> error + 'a pyval" where
  "py_getattr (PyObject attrs) name =
     (case map_of attrs name of None \<Rightarrow> Inl (AttributeError name) | Some v \<Rightarrow> Inr v)"
| "py_getattr v name = Inl (AttributeError name)"

text \<open>
  A local variable is read from the frame; reading one that no statement executed so far
  has assigned raises \<^verbatim>\<open>UnboundLocalError\<close>.
\<close>

definition read_local :: "(string \<times> 'v) list \<Rightarrow> string \<Rightarrow> error + 'v" where
  "read_local frame name =
     (case map_of frame name of None \<Rightarrow> Inl (UnboundLocalError name) | Some v \<Rightarrow> Inr v)"

text \<open>
  The names bound at the top level of the module: its imports (lines 1 to 18),
  \<^verbatim>\<open>logger\<close>, and the classes and the function it defines. A name a function uses that is
  not local, not one of these and not a builtin raises \<^verbatim>\<open>NameError\<close> when it is
  evaluated.
\<close>

definition module_globals :: "string list" where
  "module_globals =
     [''copy'', ''json'', ''logging'', ''os'', ''Namespace'', ''Path'', ''multiprocessing'',
      ''numpy'', ''torch'', ''nn'', ''optimize_onnx_model'', ''DataSilo'', ''LanguageModel'',
      ''PredictionHead'', ''TextSimilarityHead'', ''Tokenizer'', ''MlLogger'', ''stack'',
      ''logger'', ''BaseBiAdaptiveModel'', ''loss_per_head_sum'', ''BiAdaptiveModel'',
      ''ONNXBiAdaptiveModel'', ''ONNXWrapper'']"

definition read_global :: "string \<Rightarrow> 'v \<Rightarrow> error + 'v" where
  "read_global name v = (if name \<in> set module_globals then Inr v else Inl (NameError name))"

section \<open>BaseBiAdaptiveModel: formatted predictions\<close>

text \<open>
  The body of the \<^verbatim>\<open>try\<close> in the one-head branch:
  \<^verbatim>\<open>preds = kwargs["preds"]; temp = [y[0] for y in preds];
  preds_flat = [item for sublist in temp for item in sublist]\<close>.
\<close>

definition preds_flat :: "'a kwargs \<Rightarrow> error + 'a pyval" where
  "preds_flat kwargs =
     ebind (kw_get kwargs ''preds'') (\<lambda>preds.
     ebind (py_iter preds) (\<lambda>ys.
     ebind (emap py_getitem0 ys) (\<lambda>temp.
     ebind (emap py_iter temp) (\<lambda>sublists.
     Inr (PyList (concat sublists))))))"

text \<open>
  Each branch of \<^verbatim>\<open>formatted_preds\<close> is modelled by the local variables it leaves
  assigned; the last statement of the function, \<^verbatim>\<open>return preds_final\<close>, reads one of
  them. The zero-head branch assigns \<^verbatim>\<open>preds1_final\<close> and \<^verbatim>\<open>preds2_final\<close>.
\<close>

definition formatted_preds_no_head ::
  "'a pyval \<Rightarrow> 'a language_model \<Rightarrow> 'a language_model \<Rightarrow> 'a kwargs \<Rightarrow>
   call list \<times> (error + (string \<times> 'a pyval) list)" where
  "formatted_preds_no_head logits lm1 lm2 kwargs =
     (let preds1_final = lm_formatted_preds lm1 logits kwargs;
          preds2_final = lm_formatted_preds lm2 logits kwargs
      in ([EncoderFormattedPreds 1, EncoderFormattedPreds 2],
          Inr [(''preds1_final'', preds1_final), (''preds2_final'', preds2_final)]))"

text \<open>
  The one-head branch. \<^verbatim>\<open>except KeyError\<close> catches the missing key \<^verbatim>\<open>"preds"\<close> and a
  \<^verbatim>\<open>KeyError\<close> of \<^verbatim>\<open>y[0]\<close>; any other exception of the \<^verbatim>\<open>try\<close> body propagates.
\<close>

definition formatted_preds_one_head ::
  "('a, 'n) prediction_head \<Rightarrow> 'a pyval \<Rightarrow> 'a kwargs \<Rightarrow>
   call list \<times> (error + (string \<times> 'a pyval) list)" where
  "formatted_preds_one_head head logits kwargs =
     (let preds_final = [] in
      case (case preds_flat kwargs of
              Inr flat \<Rightarrow> Inr (AList.update ''preds'' flat kwargs)
            | Inl (KeyError k) \<Rightarrow> Inr (AList.update ''preds'' PyNone kwargs)
            | Inl e \<Rightarrow> Inl e) of
        Inl e \<Rightarrow> ([], Inl e)
      | Inr kwargs1 \<Rightarrow>
          (case py_getitem0 logits of
             Inl e \<Rightarrow> ([], Inl e)
           | Inr logits_for_head \<Rightarrow>
               (let preds = ph_formatted_preds head logits_for_head kwargs1 in
                ([HeadFormattedPreds 0],
                 Inr [(''preds_final'',
                       (case preds of
                          PyList ps \<Rightarrow> PyList (preds_final @ ps)
                        | PyDict kvs \<Rightarrow>
                            if ''predictions'' \<in> fst ` set kvs then PyList (preds_final @ [preds])
                            else PyList preds_final
                        | _ \<Rightarrow> PyList preds_final))]))))"

text \<open>
  The loop of the branch for more than one head, over
  \<^verbatim>\<open>enumerate(zip(self.prediction_heads, preds_for_heads, logits_for_heads))\<close>: every
  entry of \<^verbatim>\<open>logits_for_heads\<close> is \<^verbatim>\<open>None\<close>, and \<^verbatim>\<open>preds_final[i].append(preds)\<close> adds
  to the \<open>i\<close>-th bucket.
\<close>

fun formatted_heads ::
  "'a kwargs \<Rightarrow> nat \<Rightarrow> (('a, 'n) prediction_head \<times> 'a pyval \<times> 'a pyval) list \<Rightarrow> call list \<Rightarrow>
   'a pyval list list \<Rightarrow> call list \<times> 'a pyval list list" where
  "formatted_heads kwargs i [] calls preds_final = (calls, preds_final)"
| "formatted_heads kwargs i ((head, preds_for_head, logits_for_head) # rest) calls preds_final =
     (let preds = ph_formatted_preds head logits_for_head (AList.update ''preds'' preds_for_head kwargs)
      in formatted_heads kwargs (Suc i) rest (calls @ [HeadFormattedPreds i])
           (preds_final[i := preds_final ! i @ [preds]]))"

text \<open>
  Modelled from the spec: \<^verbatim>\<open>pick_single_fn\<close>, a function of the module \<^verbatim>\<open>farm.utils\<close>,
  whose code this module does not hold. Section 4.1 of the specification: if exactly one head
  among all registered heads exposes the capability it is applied; if zero or more than
  one head exposes it, no merge applies.
\<close>

definition pick_single_fn ::
  "('a, 'n) prediction_head list \<Rightarrow> string \<Rightarrow> ('a pyval \<Rightarrow> 'a pyval) option" where
  "pick_single_fn heads fn_name =
     (case List.map_filter
             (\<lambda>h. if fn_name = ''merge_formatted_preds'' then merge_formatted_preds h else None) heads of
        [f] \<Rightarrow> Some f
      | _ \<Rightarrow> None)"

text \<open>
  \<^verbatim>\<open>stack\<close> is imported from \<^verbatim>\<open>farm.utils\<close> (line 18) and is a parameter here. The module
  does not import \<^verbatim>\<open>pick_single_fn\<close>: the name is read from the module's globals.
\<close>

definition formatted_preds_many_heads ::
  "('a pyval \<Rightarrow> error + 'a pyval) \<Rightarrow> ('a, 'n) prediction_head list \<Rightarrow> 'a kwargs \<Rightarrow>
   call list \<times> (error + (string \<times> 'a pyval) list)" where
  "formatted_preds_many_heads stack heads kwargs =
     (let n_heads = length heads;
          preds_final = replicate n_heads []
      in case
           ebind (kw_get kwargs ''preds'') (\<lambda>preds.
           ebind (stack preds) (\<lambda>preds_for_heads.
           ebind (kw_get kwargs ''baskets'') (\<lambda>baskets.
           ebind (py_iter baskets) (\<lambda>bs.
           ebind (emap (\<lambda>b. ebind (py_getattr b ''samples'') py_iter) bs) (\<lambda>ss.
           (let samples = concat ss;
                kwargs1 = AList.update ''samples'' (PyList samples) kwargs;
                kwargs2 = AList.delete ''preds'' kwargs1
            in ebind (py_iter preds_for_heads) (\<lambda>pfh. Inr (kwargs2, pfh))))))))
         of
           Inl e \<Rightarrow> ([], Inl e)
         | Inr (kwargs2, pfh) \<Rightarrow>
             (let logits_for_heads = replicate n_heads PyNone in
              case formatted_heads kwargs2 0 (zip heads (zip pfh logits_for_heads)) [] preds_final of
                (calls, buckets) \<Rightarrow>
                  (calls,
                   ebind (read_global ''pick_single_fn'' pick_single_fn) (\<lambda>pick.
                     (case pick heads ''merge_formatted_preds'' of
                        Some merge_fn \<Rightarrow> Inr [(''preds_final'', merge_fn (PyList (map PyList buckets)))]
                      | None \<Rightarrow> Inr [(''preds_final'', PyList (map PyList buckets))])))))"

text \<open>
  \<^verbatim>\<open>formatted_preds\<close> is a method of the base class, whose only attribute is
  \<^verbatim>\<open>self.prediction_heads\<close>: the first argument after \<open>stack\<close> is that list.
\<close>

definition formatted_preds ::
  "('a pyval \<Rightarrow> error + 'a pyval) \<Rightarrow> ('a, 'n) prediction_head list \<Rightarrow> 'a pyval \<Rightarrow>
   'a language_model \<Rightarrow> 'a language_model \<Rightarrow> 'a kwargs \<Rightarrow> call list \<times> (error + 'a pyval)" where
  "formatted_preds stack heads logits lm1 lm2 kwargs =
     (let n_heads = length heads in
      case (if n_heads = 0 then formatted_preds_no_head logits lm1 lm2 kwargs
            else if n_heads = 1 then formatted_preds_one_head (heads ! 0) logits kwargs
            else formatted_preds_many_heads stack heads kwargs) of
        (calls, r) \<Rightarrow> (calls, ebind r (\<lambda>frame. read_local frame ''preds_final'')))"

section \<open>Files\<close>

text \<open>
  A \<^verbatim>\<open>pathlib.Path\<close> is the list of its parts; Python orders two paths as it orders the
  lists of their parts, and two strings by their characters. A file system is a list of
  entries, each a directory or a file with its text; the order of the list is the order
  in which \<^verbatim>\<open>os.listdir\<close> reports the entries, which the operating system chooses.
  The root \<open>[]\<close> exists.
\<close>

type_synonym path = "string list"

datatype fnode = Directory | File string

type_synonym filesystem = "(path \<times> fnode) list"

definition is_file :: "filesystem \<Rightarrow> path \<Rightarrow> bool" where
  "is_file fs p = (case map_of fs p of Some (File t) \<Rightarrow> True | _ \<Rightarrow> False)"

definition is_dir :: "filesystem \<Rightarrow> path \<Rightarrow> bool" where
  "is_dir fs p = (p = [] \<or> map_of fs p = Some Directory)"

definition path_exists :: "filesystem \<Rightarrow> path \<Rightarrow> bool" where
  "path_exists fs p = (p = [] \<or> map_of fs p \<noteq> None)"

definition listdir :: "filesystem \<Rightarrow> path \<Rightarrow> error + string list" where
  "listdir fs d =
     (if is_dir fs d then Inr (map (\<lambda>(p, n). last p) (filter (\<lambda>(p, n). p \<noteq> [] \<and> butlast p = d) fs))
      else if is_file fs d then Inl (OSError ''Not a directory'')
      else Inl (FileNotFoundError (concat d)))"

definition read_file :: "filesystem \<Rightarrow> path \<Rightarrow> error + string" where
  "read_file fs p =
     (case map_of fs p of
        Some (File t) \<Rightarrow> Inr t
      | Some Directory \<Rightarrow> Inl (OSError ''Is a directory'')
      | None \<Rightarrow> Inl (FileNotFoundError (concat p)))"

definition write_file :: "filesystem \<Rightarrow> path \<Rightarrow> string \<Rightarrow> error + filesystem" where
  "write_file fs p t =
     (if p = [] \<or> map_of fs p = Some Directory then Inl (OSError ''Is a directory'')
      else if is_dir fs (butlast p) then Inr (AList.update p (File t) fs)
      else Inl (FileNotFoundError (concat p)))"

fun mkdirs :: "path list \<Rightarrow> filesystem \<Rightarrow> error + filesystem" where
  "mkdirs [] fs = Inr fs"
| "mkdirs (q # qs) fs =
     (case map_of fs q of
        None \<Rightarrow> mkdirs qs (fs @ [(q, Directory)])
      | Some Directory \<Rightarrow> mkdirs qs fs
      | Some (File t) \<Rightarrow> Inl (OSError ''File exists''))"

text \<open>\<^verbatim>\<open>os.makedirs(p, exist_ok)\<close>: the parents are made as needed, then the leaf.\<close>

definition makedirs :: "filesystem \<Rightarrow> path \<Rightarrow> bool \<Rightarrow> error + filesystem" where
  "makedirs fs p exist_ok =
     (if is_dir fs p then (if exist_ok then Inr fs else Inl (OSError ''File exists''))
      else mkdirs (map (\<lambda>k. take k p) [1..<Suc (length p)]) fs)"

text \<open>
  A directory argument is a \<^verbatim>\<open>str\<close> or a \<^verbatim>\<open>Path\<close>. \<^verbatim>\<open>Path(d)\<close> and \<^verbatim>\<open>os.path.join\<close>
  take both; the operator \<^verbatim>\<open>/\<close> is defined for a \<^verbatim>\<open>Path\<close> only.
\<close>

datatype pathlike = PyStrPath path | PyPath path

fun to_Path :: "pathlike \<Rightarrow> path" where
  "to_Path (PyStrPath p) = p"
| "to_Path (PyPath p) = p"

fun path_div :: "pathlike \<Rightarrow> string \<Rightarrow> error + path" where
  "path_div (PyPath p) name = Inr (p @ [name])"
| "path_div (PyStrPath p) name = Inl (TypeError ''unsupported operand type(s) for /: str and str'')"

text \<open>\<open>str_contains sub s\<close> is Python's \<^verbatim>\<open>sub in s\<close> on strings.\<close>

fun str_contains :: "string \<Rightarrow> string \<Rightarrow> bool" where
  "str_contains sub [] = (sub = [])"
| "str_contains sub (c # cs) = (take (length sub) (c # cs) = sub \<or> str_contains sub cs)"

definition get_prediction_head_files :: "filesystem \<Rightarrow> pathlike \<Rightarrow> error + path list" where
  "get_prediction_head_files fs load_dir =
     (let load_dir' = to_Path load_dir in
      ebind (listdir fs load_dir') (\<lambda>files.
        (let config_files =
               map (\<lambda>f. load_dir' @ [f])
                 (filter (\<lambda>f. str_contains ''config.json'' f \<and> str_contains ''prediction_head'' f) files)
         in Inr (sort config_files))))"

section \<open>BiAdaptiveModel: save and load\<close>

text \<open>
  The persistence of the collaborators (\<^verbatim>\<open>LanguageModel.save\<close>, \<^verbatim>\<open>LanguageModel.load\<close>,
  \<^verbatim>\<open>PredictionHead.save\<close>, \<^verbatim>\<open>PredictionHead.load\<close>) and \<^verbatim>\<open>torch.nn.Dropout\<close> are
  imported by the module: they are parameters of its functions.
\<close>

record ('a, 'n) collaborators =
  nn_Dropout :: "real \<Rightarrow> 'a dropout"
  LanguageModel_save :: "'a language_model \<Rightarrow> path \<Rightarrow> filesystem \<Rightarrow> error + filesystem"
  LanguageModel_load :: "filesystem \<Rightarrow> path \<Rightarrow> error + 'a language_model"
  PredictionHead_save ::
    "('a, 'n) prediction_head \<Rightarrow> path \<Rightarrow> nat \<Rightarrow> filesystem \<Rightarrow> error + filesystem"
  PredictionHead_load :: "filesystem \<Rightarrow> path \<Rightarrow> error + ('a, 'n) prediction_head"

fun save_heads ::
  "('a, 'n) collaborators \<Rightarrow> path \<Rightarrow> nat \<Rightarrow> ('a, 'n) prediction_head list \<Rightarrow> filesystem \<Rightarrow>
   error + filesystem" where
  "save_heads C save_dir i [] fs = Inr fs"
| "save_heads C save_dir i (ph # rest) fs =
     ebind (PredictionHead_save C ph save_dir i fs) (\<lambda>fs'. save_heads C save_dir (Suc i) rest fs')"

definition save ::
  "('a, 'n) collaborators \<Rightarrow> ('a, 'n) BiAdaptiveModel \<Rightarrow> path \<Rightarrow> filesystem \<Rightarrow> error + filesystem" where
  "save C m save_dir fs =
     ebind (makedirs fs save_dir True) (\<lambda>fs1.
     ebind (if \<not> path_exists fs1 (save_dir @ [''lm1'']) then makedirs fs1 (save_dir @ [''lm1'']) False
            else Inr fs1) (\<lambda>fs2.
     ebind (if \<not> path_exists fs2 (save_dir @ [''lm2'']) then makedirs fs2 (save_dir @ [''lm2'']) False
            else Inr fs2) (\<lambda>fs3.
     ebind (LanguageModel_save C (language_model1 m) (save_dir @ [''lm1'']) fs3) (\<lambda>fs4.
     ebind (LanguageModel_save C (language_model2 m) (save_dir @ [''lm2'']) fs4) (\<lambda>fs5.
     save_heads C save_dir 0 (prediction_heads m) fs5)))))"

record processor =
  tasks :: "(string \<times> task) list"

text \<open>
  \<^verbatim>\<open>BiAdaptiveModel.load\<close>. \<open>lm1_name\<close> and \<open>lm2_name\<close> are one path component each; the
  empty string is the value for which \<^verbatim>\<open>if lm1_name:\<close> is false. The model is built by
  \<^verbatim>\<open>cls(language_model1, language_model2, prediction_heads, 0.1, device)\<close>, with every
  other argument of the constructor at its default.
\<close>

definition load ::
  "('a, 'n::{zero,plus}) collaborators \<Rightarrow> filesystem \<Rightarrow> pathlike \<Rightarrow> string \<Rightarrow> bool \<Rightarrow> string \<Rightarrow> string \<Rightarrow>
   processor option \<Rightarrow> error + ('a, 'n) BiAdaptiveModel" where
  "load C fs load_dir dev strict lm1_name lm2_name proc =
     ebind (if lm1_name \<noteq> [] then LanguageModel_load C fs (to_Path load_dir @ [lm1_name])
            else LanguageModel_load C fs (to_Path load_dir)) (\<lambda>lm1.
     ebind (if lm2_name \<noteq> [] then LanguageModel_load C fs (to_Path load_dir @ [lm2_name])
            else LanguageModel_load C fs (to_Path load_dir)) (\<lambda>lm2.
     ebind (get_prediction_head_files fs load_dir) (\<lambda>ph_config_files.
     ebind (emap (PredictionHead_load C fs) ph_config_files) (\<lambda>heads.
       (let model = BiAdaptiveModel_init (nn_Dropout C) lm1 lm2 heads 0.1 dev None None None in
        case proc of
          None \<Rightarrow> Inr model
        | Some pr \<Rightarrow>
            (case connect_heads_with_processor model (tasks pr) True of
               (model', r) \<Rightarrow> ebind r (\<lambda>u. Inr model')))))))"

definition get_language :: "('a, 'n) BiAdaptiveModel \<Rightarrow> string \<times> string" where
  "get_language m = (language (language_model1 m), language (language_model2 m))"

section \<open>ONNXBiAdaptiveModel\<close>

text \<open>
  What \<^verbatim>\<open>ONNXBiAdaptiveModel\<close> uses from outside the module: whether
  \<^verbatim>\<open>import onnxruntime\<close> succeeds, \<^verbatim>\<open>onnxruntime.InferenceSession\<close>,
  \<^verbatim>\<open>onnxruntime.get_device\<close> and \<^verbatim>\<open>json.load\<close>.
\<close>

record 'a onnx_env =
  ort_installed :: bool
  ort_InferenceSession :: "filesystem \<Rightarrow> path \<Rightarrow> error + 'a"
  ort_get_device :: string
  json_load :: "string \<Rightarrow> error + 'a pyval"

record ('a, 'n) ONNXBiAdaptiveModel =
  onnx_session :: 'a
  onnx_prediction_heads :: "('a, 'n) prediction_head list"
  onnx_device :: string
  onnx_language :: "'a pyval"

text \<open>
  \<^verbatim>\<open>__init__\<close> reads \<^verbatim>\<open>onnxruntime\<close> as a global of the module when the device is
  \<^verbatim>\<open>"cuda"\<close> (\<^verbatim>\<open>and\<close> evaluates its right operand only then); the module imports
  \<^verbatim>\<open>onnxruntime\<close> inside \<^verbatim>\<open>load\<close> only, where it is a local name.
\<close>

definition ONNXBiAdaptiveModel_init ::
  "'a onnx_env \<Rightarrow> 'a \<Rightarrow> ('a, 'n) prediction_head list \<Rightarrow> 'a pyval \<Rightarrow> string \<Rightarrow>
   error + ('a, 'n) ONNXBiAdaptiveModel" where
  "ONNXBiAdaptiveModel_init E session heads lang dev =
     ebind (if dev = ''cuda'' then
              ebind (read_global ''onnxruntime'' (ort_get_device E)) (\<lambda>d.
                if d \<noteq> ''GPU'' then
                  Inl (Exception (''Device '' @ dev @ '' not available for Inference.''))
                else Inr ())
            else Inr ()) (\<lambda>u.
     Inr \<lparr> onnx_session = session, onnx_prediction_heads = heads, onnx_device = dev,
           onnx_language = lang \<rparr>)"

text \<open>
  \<^verbatim>\<open>_, ph_config_files = ...\<close> unpacks a list into two targets: it takes a list of
  exactly two elements.
\<close>

fun unpack2 :: "'x list \<Rightarrow> error + 'x \<times> 'x" where
  "unpack2 [a, b] = Inr (a, b)"
| "unpack2 [] = Inl (ValueError ''not enough values to unpack (expected 2, got 0)'')"
| "unpack2 [a] = Inl (ValueError ''not enough values to unpack (expected 2, got 1)'')"
| "unpack2 (a # b # c # rest) = Inl (ValueError ''too many values to unpack (expected 2)'')"

text \<open>
  \<^verbatim>\<open>for config_file in p\<close> with \<open>p\<close> a \<^verbatim>\<open>Path\<close>: \<^verbatim>\<open>pathlib\<close> paths define neither
  \<^verbatim>\<open>__iter__\<close> nor \<^verbatim>\<open>__getitem__\<close>.
\<close>

definition iter_Path :: "path \<Rightarrow> error + path list" where
  "iter_Path p = Inl (not_iterable ''PosixPath'')"

fun py_getitem :: "'a pyval \<Rightarrow> string \<Rightarrow> error + 'a pyval" where
  "py_getitem (PyDict kvs) k = (case map_of kvs k of None \<Rightarrow> Inl (KeyError k) | Some v \<Rightarrow> Inr v)"
| "py_getitem v k = Inl (TypeError ''indices must be integers'')"

definition ONNXBiAdaptiveModel_load ::
  "('a, 'n) collaborators \<Rightarrow> 'a onnx_env \<Rightarrow> filesystem \<Rightarrow> pathlike \<Rightarrow> string \<Rightarrow>
   error + ('a, 'n) ONNXBiAdaptiveModel" where
  "ONNXBiAdaptiveModel_load C E fs load_dir dev =
     ebind (if ort_installed E then Inr () else Inl (ModuleNotFoundError ''onnxruntime'')) (\<lambda>u.
     ebind (path_div load_dir ''model.onnx'') (\<lambda>model_path.
     ebind (ort_InferenceSession E fs model_path) (\<lambda>session.
     ebind (get_prediction_head_files fs load_dir) (\<lambda>files.
     ebind (unpack2 files) (\<lambda>(ignored, ph_config_files).
     ebind (iter_Path ph_config_files) (\<lambda>config_files.
     ebind (emap (PredictionHead_load C fs) config_files) (\<lambda>heads.
     ebind (path_div load_dir ''model_config.json'') (\<lambda>config_path.
     ebind (read_file fs config_path) (\<lambda>t.
     ebind (json_load E t) (\<lambda>model_config.
     ebind (py_getitem model_config ''language'') (\<lambda>lang.
     ONNXBiAdaptiveModel_init E session heads lang dev)))))))))))"

section \<open>BaseBiAdaptiveModel: the polymorphic load\<close>

text \<open>
  The keyword arguments of \<^verbatim>\<open>load(**kwargs)\<close>: the parameters the two \<^verbatim>\<open>load\<close> methods
  name, each given or not, and the names of any other keywords.
\<close>

record load_kwargs =
  kw_load_dir :: "pathlike option"
  kw_device :: "string option"
  kw_strict :: "bool option"
  kw_lm1_name :: "string option"
  kw_lm2_name :: "string option"
  kw_processor :: "processor option"
  kw_others :: "string list"

datatype ('a, 'n) model_object =
    IsBiAdaptiveModel "('a, 'n) BiAdaptiveModel"
  | IsONNXBiAdaptiveModel "('a, 'n) ONNXBiAdaptiveModel"

definition missing_argument :: "string \<Rightarrow> error" where
  "missing_argument name = TypeError (''load() missing 1 required positional argument: '' @ name)"

text \<open>
  \<^verbatim>\<open>BiAdaptiveModel.load(**kwargs)\<close> binds the keywords to
  \<^verbatim>\<open>(load_dir, device, strict=True, lm1_name="lm1", lm2_name="lm2", processor=None)\<close> and
  takes no other keyword; \<^verbatim>\<open>ONNXBiAdaptiveModel.load(load_dir, device, **kwargs)\<close>
  accepts and ignores the others.
\<close>

definition load_with_kwargs ::
  "('a, 'n::{zero,plus}) collaborators \<Rightarrow> filesystem \<Rightarrow> load_kwargs \<Rightarrow> error + ('a, 'n) BiAdaptiveModel" where
  "load_with_kwargs C fs kwargs =
     (if kw_others kwargs \<noteq> [] then
        Inl (TypeError (''load() got an unexpected keyword argument '' @ hd (kw_others kwargs)))
      else case kw_load_dir kwargs of
        None \<Rightarrow> Inl (missing_argument ''load_dir'')
      | Some load_dir \<Rightarrow>
          (case kw_device kwargs of
             None \<Rightarrow> Inl (missing_argument ''device'')
           | Some dev \<Rightarrow>
               load C fs load_dir dev
                 (case kw_strict kwargs of None \<Rightarrow> True | Some b \<Rightarrow> b)
                 (case kw_lm1_name kwargs of None \<Rightarrow> ''lm1'' | Some n \<Rightarrow> n)
                 (case kw_lm2_name kwargs of None \<Rightarrow> ''lm2'' | Some n \<Rightarrow> n)
                 (kw_processor kwargs)))"

definition ONNXBiAdaptiveModel_load_with_kwargs ::
  "('a, 'n) collaborators \<Rightarrow> 'a onnx_env \<Rightarrow> filesystem \<Rightarrow> load_kwargs \<Rightarrow>
   error + ('a, 'n) ONNXBiAdaptiveModel" where
  "ONNXBiAdaptiveModel_load_with_kwargs C E fs kwargs =
     (case kw_load_dir kwargs of
        None \<Rightarrow> Inl (missing_argument ''load_dir'')
      | Some load_dir \<Rightarrow>
          (case kw_device kwargs of
             None \<Rightarrow> Inl (missing_argument ''device'')
           | Some dev \<Rightarrow> ONNXBiAdaptiveModel_load C E fs load_dir dev))"

text \<open>
  \<^verbatim>\<open>__init_subclass__\<close> registers every subclass under its name: \<^verbatim>\<open>cls.subclasses[name]\<close>
  is a class of the module, and \<^verbatim>\<open>.load\<close> its class method (\<^verbatim>\<open>ONNXWrapper\<close> inherits
  the one of \<^verbatim>\<open>BiAdaptiveModel\<close>).
\<close>

definition subclasses_load ::
  "('a, 'n::{zero,plus}) collaborators \<Rightarrow> 'a onnx_env \<Rightarrow> filesystem \<Rightarrow> string \<Rightarrow> load_kwargs \<Rightarrow>
   error + ('a, 'n) model_object" where
  "subclasses_load C E fs name kwargs =
     (if name = ''ONNXBiAdaptiveModel'' then
        map_sum id IsONNXBiAdaptiveModel (ONNXBiAdaptiveModel_load_with_kwargs C E fs kwargs)
      else if name = ''BiAdaptiveModel'' \<or> name = ''ONNXWrapper'' then
        map_sum id IsBiAdaptiveModel (load_with_kwargs C fs kwargs)
      else Inl (KeyError name))"

definition BaseBiAdaptiveModel_load ::
  "('a, 'n::{zero,plus}) collaborators \<Rightarrow> 'a onnx_env \<Rightarrow> filesystem \<Rightarrow> load_kwargs \<Rightarrow>
   call list \<times> (error + ('a, 'n) model_object)" where
  "BaseBiAdaptiveModel_load C E fs kwargs =
     (case kw_load_dir kwargs of
        None \<Rightarrow> ([], Inl (KeyError ''load_dir''))
      | Some d \<Rightarrow>
          if is_file fs (to_Path d @ [''model.onnx'']) then
            ([ClassLoad ''ONNXBiAdaptiveModel''], subclasses_load C E fs ''ONNXBiAdaptiveModel'' kwargs)
          else
            ([ClassLoad ''BiAdaptiveModel''], subclasses_load C E fs ''BiAdaptiveModel'' kwargs))"

section \<open>The directory layout of the collaborators\<close>

text \<open>\<open>decimal n\<close> is Python's \<^verbatim>\<open>str(n)\<close> for a natural number.\<close>

fun decimal :: "nat \<Rightarrow> string" where
  "decimal n =
     (if n < 10 then [''0123456789'' ! n]
      else decimal (n div 10) @ [''0123456789'' ! (n mod 10)])"

declare decimal.simps [simp del]

text \<open>
  Modelled from the spec: the \<^verbatim>\<open>save\<close> and \<^verbatim>\<open>load\<close> methods of \<^verbatim>\<open>LanguageModel\<close> and
  \<^verbatim>\<open>PredictionHead\<close>, classes of the modules \<^verbatim>\<open>farm.modeling.language_model\<close> and
  \<^verbatim>\<open>farm.modeling.prediction_head\<close>. Section 6 of the specification gives the
  layout: \<^verbatim>\<open>prediction_head_<i>_config.json\<close> and a weights file \<^verbatim>\<open>prediction_head_<i>.bin\<close>
  per head, with \<open>i\<close> the index of the head from 0; each encoder under its own
  directory. A head or an encoder is rebuilt from the text of its config file by
  \<open>ph_of_config\<close> or \<open>lm_of_config\<close>.
\<close>

definition farm_collaborators ::
  "(real \<Rightarrow> 'a dropout) \<Rightarrow> (string \<Rightarrow> 'a language_model) \<Rightarrow> (string \<Rightarrow> ('a, 'n) prediction_head) \<Rightarrow>
   ('a, 'n) collaborators" where
  "farm_collaborators dropout_of lm_of_config ph_of_config =
     \<lparr> nn_Dropout = dropout_of,
       LanguageModel_save = (\<lambda>lm dir fs.
         ebind (write_file fs (dir @ [''language_model.bin'']) ''weights'') (\<lambda>fs1.
           write_file fs1 (dir @ [''language_model_config.json'']) (lm_config lm))),
       LanguageModel_load = (\<lambda>fs dir.
         ebind (read_file fs (dir @ [''language_model_config.json''])) (\<lambda>t. Inr (lm_of_config t))),
       PredictionHead_save = (\<lambda>ph dir i fs.
         ebind (write_file fs (dir @ [''prediction_head_'' @ decimal i @ ''.bin'']) ''weights'') (\<lambda>fs1.
           write_file fs1 (dir @ [''prediction_head_'' @ decimal i @ ''_config.json'']) (ph_config ph))),
       PredictionHead_load = (\<lambda>fs p. ebind (read_file fs p) (\<lambda>t. Inr (ph_of_config t))) \<rparr>"

section \<open>Example objects\<close>

text \<open>
  Concrete encoders, heads and collaborators, on which the theorems below are run. An
  example encoder is named by its language, an example head by its task.
\<close>

definition example_lm :: "string \<Rightarrow> nat language_model" where
  "example_lm lang =
     \<lparr> lm_config = lang, lm_name = ''encoder'', language = lang, lm_device = None,
       lm_output_dims = 768,
       lm_forward = (\<lambda>kwargs. (length lang, 0)),
       lm_formatted_preds = (\<lambda>logits kwargs. PyTuple [PyStr lang, logits]) \<rparr>"

definition example_head :: "string \<Rightarrow> (nat, int) prediction_head" where
  "example_head name =
     \<lparr> ph_config = name, task_name = name, ph_output_type = ''per_sequence'', ph_device = None,
       label_tensor_name = None, label_list = None, metric = None,
       ph_forward = (\<lambda>x y. PyTuple [PyStr name, PyOpaque x, PyOpaque y]),
       ph_logits_to_loss = (\<lambda>logits kwargs. [1, 2, 3]),
       ph_logits_to_preds = (\<lambda>logits kwargs. logits),
       ph_formatted_preds = (\<lambda>logits kwargs. PyDict [(''predictions'', PyStr name)]),
       merge_formatted_preds = None \<rparr>"

definition example_dropout :: "real \<Rightarrow> nat dropout" where
  "example_dropout prob = (\<lambda>i x. x)"

definition example_collaborators :: "(nat, int) collaborators" where
  "example_collaborators = farm_collaborators example_dropout example_lm example_head"

definition example_onnx_env :: "nat onnx_env" where
  "example_onnx_env =
     \<lparr> ort_installed = True,
       ort_InferenceSession = (\<lambda>fs p. if is_file fs p then Inr 0 else Inl (Exception ''NoSuchFile'')),
       ort_get_device = ''CPU'',
       json_load = (\<lambda>t. Inr (PyDict [(''language'', PyStr t)])) \<rparr>"

text \<open>
  A directory as an export leaves it: the marker file \<^verbatim>\<open>model.onnx\<close>, the config of the
  frozen model, the config files of two heads and the two encoder directories.
\<close>

definition example_export_dir :: filesystem where
  "example_export_dir =
     [([''export''], Directory),
      ([''export'', ''model.onnx''], File ''graph''),
      ([''export'', ''model_config.json''], File ''en''),
      ([''export'', ''prediction_head_0_config.json''], File ''a''),
      ([''export'', ''prediction_head_1_config.json''], File ''b''),
      ([''export'', ''lm1''], Directory),
      ([''export'', ''lm1'', ''language_model_config.json''], File ''en''),
      ([''export'', ''lm2''], Directory),
      ([''export'', ''lm2'', ''language_model_config.json''], File ''deu'')]"

definition example_load_kwargs :: "string \<Rightarrow> load_kwargs" where
  "example_load_kwargs dir =
     \<lparr> kw_load_dir = Some (PyPath [dir]), kw_device = Some ''cpu'', kw_strict = None,
       kw_lm1_name = None, kw_lm2_name = None, kw_processor = None, kw_others = [] \<rparr>"

section \<open>Lists and loops\<close>

lemma upt_Suc_shift: "[i..<i + Suc n] = i # [Suc i..<Suc i + n]"
proof -
  have "i < i + Suc n" by simp
  then have "[i..<i + Suc n] = i # [Suc i..<i + Suc n]" by (rule upt_conv_Cons)
  then show ?thesis by simp
qed

lemma forward_heads_all_valid:
  "\<forall>(h, a, b) \<in> set zs. valid_mode a \<and> valid_mode b \<Longrightarrow>
   forward_heads d1 d2 p1 p2 i zs calls acc =
     (calls @ map (\<lambda>(k, h, a, b). HeadForward k) (enumerate i zs),
      Inr (acc @ map (\<lambda>(k, h, a, b). ph_forward h (d1 k p1) (d2 k p2)) (enumerate i zs)))"
  by (induction zs arbitrary: i calls acc) auto

lemma forward_heads_first_invalid:
  "\<forall>(h, a, b) \<in> set pre. valid_mode a \<and> valid_mode b \<Longrightarrow>
   \<not> (valid_mode a \<and> valid_mode b) \<Longrightarrow>
   forward_heads d1 d2 p1 p2 i (pre @ (h, a, b) # post) calls acc =
     (calls @ map HeadForward [i..<i + length pre],
      Inl (unknown_strategy (if valid_mode a then b else a)))"
proof (induction pre arbitrary: i calls acc)
  case Nil
  then show ?case by auto
next
  case (Cons z pre)
  obtain h' a' b' where z: "z = (h', a', b')" by (cases z) auto
  from Cons.prems have v: "valid_mode a'" "valid_mode b'"
    and rest: "\<forall>(h, a, b) \<in> set pre. valid_mode a \<and> valid_mode b"
    by (auto simp: z)
  have "[i..<i + length (z # pre)] = i # [Suc i..<Suc i + length pre]"
    using upt_Suc_shift [of i "length pre"] by simp
  then show ?case
    using Cons.IH [OF rest Cons.prems(2), of "Suc i"] v by (simp add: z del: upt_Suc)
qed

lemma enumerate_heads_calls:
  "map (\<lambda>(k, h, a, b). HeadForward k) (enumerate i zs) = map HeadForward [i..<i + length zs]"
proof (induction zs arbitrary: i)
  case Nil
  then show ?case by simp
next
  case (Cons z zs)
  have "[i..<i + length (z # zs)] = i # [Suc i..<Suc i + length zs]"
    using upt_Suc_shift [of i "length zs"] by simp
  then show ?case using Cons.IH [of "Suc i"] by (simp add: case_prod_beta del: upt_Suc)
qed

lemma enumerate_heads_logits:
  "length t1 = length hs \<Longrightarrow> length t2 = length hs \<Longrightarrow>
   map (\<lambda>(k, h, a, b). f k h) (enumerate 0 (zip hs (zip t1 t2))) =
   map (\<lambda>k. f k (hs ! k)) [0..<length hs]"
  by (rule nth_equalityI) (auto simp: nth_enumerate_eq)

lemma forward_all_valid:
  assumes "prediction_heads m \<noteq> []"
    and "length (lm1_output_types m) = length (prediction_heads m)"
    and "length (lm2_output_types m) = length (prediction_heads m)"
    and "\<forall>s \<in> set (lm1_output_types m) \<union> set (lm2_output_types m). valid_mode s"
  shows "forward m kwargs =
     ([EncoderForward 1, EncoderForward 2] @ map HeadForward [0..<length (prediction_heads m)],
      Inr (PyList (map (\<lambda>i. ph_forward (prediction_heads m ! i)
                               (dropout1 m i (fst (lm_forward (language_model1 m) kwargs)))
                               (dropout2 m i (fst (lm_forward (language_model2 m) kwargs))))
                    [0..<length (prediction_heads m)])))"
proof -
  let ?zs = "zip (prediction_heads m) (zip (lm1_output_types m) (lm2_output_types m))"
  have valid: "\<forall>(h, a, b) \<in> set ?zs. valid_mode a \<and> valid_mode b"
  proof clarify
    fix h a b
    assume "(h, a, b) \<in> set ?zs"
    then have "(a, b) \<in> set (zip (lm1_output_types m) (lm2_output_types m))"
      by (rule set_zip_rightD)
    then have "a \<in> set (lm1_output_types m)" and "b \<in> set (lm2_output_types m)"
      by (auto dest: set_zip_leftD set_zip_rightD)
    then show "valid_mode a \<and> valid_mode b" using assms(4) by blast
  qed
  have len: "length ?zs = length (prediction_heads m)"
    using assms(2,3) by simp
  show ?thesis
    using assms(1)
    by (simp add: forward_def forward_lm_def forward_heads_all_valid [OF valid]
        enumerate_heads_calls enumerate_heads_logits [OF assms(2,3)]
        assms(2,3) case_prod_beta Let_def)
qed

section \<open>The forward pass returns one entry per head\<close>

text \<open>
  C1 (amended). For every model constructed with \<open>N \<ge> 1\<close> heads and two lists of
  extraction modes that hold one entry per head, every entry \<^verbatim>\<open>per_sequence\<close> or
  \<^verbatim>\<open>per_sequence_continuous\<close>, \<open>forward\<close> runs the two encoders and then the heads in
  construction order, and returns a list of exactly \<open>N\<close> entries, the \<open>i\<close>-th the output of
  head \<open>i\<close> on the two pooled outputs after dropout. For a model constructed with no head,
  \<open>forward\<close> returns a list of one element, the pair of the two pooled outputs, and runs
  no dropout.
\<close>

theorem forward_one_entry_per_head:
  "(heads \<noteq> [] \<and> length t1 = length heads \<and> length t2 = length heads \<and>
    (\<forall>s \<in> set t1 \<union> set t2. valid_mode s) \<longrightarrow>
    forward (BiAdaptiveModel_init dropout_of lm1 lm2 heads prob dev
               (Some (StrList t1)) (Some (StrList t2)) agg) kwargs =
      ([EncoderForward 1, EncoderForward 2] @ map HeadForward [0..<length heads],
       Inr (PyList (map (\<lambda>i. ph_forward (heads ! i)
                                (dropout_of prob i (fst (lm_forward lm1 kwargs)))
                                (dropout_of prob i (fst (lm_forward lm2 kwargs))))
                     [0..<length heads])))) \<and>
   forward (BiAdaptiveModel_init dropout_of lm1 lm2 [] prob dev a1 a2 agg) kwargs =
     ([EncoderForward 1, EncoderForward 2],
      Inr (PyList [PyTuple [PyOpaque (fst (lm_forward lm1 kwargs)),
                            PyOpaque (fst (lm_forward lm2 kwargs))]]))"
proof (intro conjI impI)
  let ?m = "BiAdaptiveModel_init dropout_of lm1 lm2 heads prob dev
               (Some (StrList t1)) (Some (StrList t2)) agg"
  assume a: "heads \<noteq> [] \<and> length t1 = length heads \<and> length t2 = length heads \<and>
    (\<forall>s \<in> set t1 \<union> set t2. valid_mode s)"
  have 1: "prediction_heads ?m \<noteq> []" using a by (simp add: BiAdaptiveModel_init_def)
  have 2: "length (lm1_output_types ?m) = length (prediction_heads ?m)"
    using a by (simp add: BiAdaptiveModel_init_def)
  have 3: "length (lm2_output_types ?m) = length (prediction_heads ?m)"
    using a by (simp add: BiAdaptiveModel_init_def)
  have 4: "\<forall>s \<in> set (lm1_output_types ?m) \<union> set (lm2_output_types ?m). valid_mode s"
    using a by (simp add: BiAdaptiveModel_init_def)
  have "forward ?m kwargs =
     ([EncoderForward 1, EncoderForward 2] @ map HeadForward [0..<length (prediction_heads ?m)],
      Inr (PyList (map (\<lambda>i. ph_forward (prediction_heads ?m ! i)
                               (dropout1 ?m i (fst (lm_forward (language_model1 ?m) kwargs)))
                               (dropout2 ?m i (fst (lm_forward (language_model2 ?m) kwargs))))
                    [0..<length (prediction_heads ?m)])))"
    by (rule forward_all_valid [OF 1 2 3 4])
  then show "forward ?m kwargs =
      ([EncoderForward 1, EncoderForward 2] @ map HeadForward [0..<length heads],
       Inr (PyList (map (\<lambda>i. ph_forward (heads ! i)
                                (dropout_of prob i (fst (lm_forward lm1 kwargs)))
                                (dropout_of prob i (fst (lm_forward lm2 kwargs))))
                     [0..<length heads])))"
    by (simp add: BiAdaptiveModel_init_def lm_to_def ph_to_def cong: map_cong)
next
  show "forward (BiAdaptiveModel_init dropout_of lm1 lm2 [] prob dev a1 a2 agg) kwargs =
     ([EncoderForward 1, EncoderForward 2],
      Inr (PyList [PyTuple [PyOpaque (fst (lm_forward lm1 kwargs)),
                            PyOpaque (fst (lm_forward lm2 kwargs))]]))"
    by (simp add: forward_def forward_lm_def BiAdaptiveModel_init_def lm_to_def case_prod_beta)
qed

theorem forward_one_entry_per_head_witness:
  "forward (BiAdaptiveModel_init example_dropout (example_lm ''en'') (example_lm ''deu'')
              [example_head ''a'', example_head ''b''] 0.1 ''cpu''
              (Some (StrList [''per_sequence'', ''per_sequence_continuous'']))
              (Some (StrList [''per_sequence'', ''per_sequence'']))
              (None :: (nat, int) aggregation option)) [] =
     ([EncoderForward 1, EncoderForward 2, HeadForward 0, HeadForward 1],
      Inr (PyList [PyTuple [PyStr ''a'', PyOpaque 2, PyOpaque 3],
                   PyTuple [PyStr ''b'', PyOpaque 2, PyOpaque 3]])) \<and>
   forward (BiAdaptiveModel_init example_dropout (example_lm ''en'') (example_lm ''deu'')
              [] 0.1 ''cpu'' None None (None :: (nat, int) aggregation option)) [] =
     ([EncoderForward 1, EncoderForward 2], Inr (PyList [PyTuple [PyOpaque 2, PyOpaque 3]]))"
  using forward_one_entry_per_head
    [of "[example_head ''a'', example_head ''b'']"
        "[''per_sequence'', ''per_sequence_continuous'']" "[''per_sequence'', ''per_sequence'']"
        example_dropout "example_lm ''en''" "example_lm ''deu''" "0.1" "''cpu''"
        "None :: (nat, int) aggregation option" "[]" None None]
  by (simp add: valid_mode_def example_head_def example_lm_def example_dropout_def upt_rec)

text \<open>
  C1 as stated fails: with no head the value returned is a list that holds the pair, not
  the pair; and a list of modes with the entry \<^verbatim>\<open>per_token\<close> makes \<open>forward\<close> raise
  instead of returning an entry per head.
\<close>

theorem forward_claim_counterexample:
  "snd (forward (BiAdaptiveModel_init example_dropout (example_lm ''en'') (example_lm ''deu'')
                   [] 0.1 ''cpu'' None None (None :: (nat, int) aggregation option)) []) =
     Inr (PyList [PyTuple [PyOpaque 2, PyOpaque 3]]) \<and>
   snd (forward (BiAdaptiveModel_init example_dropout (example_lm ''en'') (example_lm ''deu'')
                   [] 0.1 ''cpu'' None None (None :: (nat, int) aggregation option)) []) \<noteq>
     Inr (PyTuple [PyOpaque 2, PyOpaque 3]) \<and>
   snd (forward (BiAdaptiveModel_init example_dropout (example_lm ''en'') (example_lm ''deu'')
                   [example_head ''a''] 0.1 ''cpu''
                   (Some (StrList [''per_token''])) (Some (StrList [''per_sequence'']))
                   (None :: (nat, int) aggregation option)) []) =
     Inl (ValueError ''Unknown extraction strategy from DPR model: per_token'')"
  by (simp add: forward_def forward_lm_def BiAdaptiveModel_init_def lm_to_def ph_to_def
      example_lm_def example_head_def valid_mode_def unknown_strategy_def)

section \<open>The default extraction modes\<close>

text \<open>
  C2 (amended). A model constructed with the two extraction-mode arguments left at their
  defaults has exactly one entry \<^verbatim>\<open>per_sequence\<close> for each encoder, whatever the number of
  heads: the lengths of the two lists equal the number of heads if and only if the model
  has exactly one head.
\<close>

theorem default_output_types_single_entry:
  "lm1_output_types (BiAdaptiveModel_init dropout_of lm1 lm2 heads prob dev None None agg) =
     [''per_sequence''] \<and>
   lm2_output_types (BiAdaptiveModel_init dropout_of lm1 lm2 heads prob dev None None agg) =
     [''per_sequence''] \<and>
   ((length (lm1_output_types (BiAdaptiveModel_init dropout_of lm1 lm2 heads prob dev None None agg)) =
       length (prediction_heads (BiAdaptiveModel_init dropout_of lm1 lm2 heads prob dev None None agg)) \<and>
     length (lm2_output_types (BiAdaptiveModel_init dropout_of lm1 lm2 heads prob dev None None agg)) =
       length (prediction_heads (BiAdaptiveModel_init dropout_of lm1 lm2 heads prob dev None None agg))) =
    (length heads = 1))"
  by (auto simp: BiAdaptiveModel_init_def default_output_types_def)

text \<open>
  C2 as stated fails for two heads: the defaults give one entry per encoder, not one per
  head.
\<close>

theorem default_output_types_counterexample:
  "length (lm1_output_types
     (BiAdaptiveModel_init example_dropout (example_lm ''en'') (example_lm ''deu'')
        [example_head ''a'', example_head ''b''] 0.1 ''cpu'' None None
        (None :: (nat, int) aggregation option))) = 1 \<and>
   length (prediction_heads
     (BiAdaptiveModel_init example_dropout (example_lm ''en'') (example_lm ''deu'')
        [example_head ''a'', example_head ''b''] 0.1 ''cpu'' None None
        (None :: (nat, int) aggregation option))) = 2"
  by (simp add: BiAdaptiveModel_init_def default_output_types_def)

section \<open>An unsupported extraction mode\<close>

text \<open>
  C6 (amended). Let \<open>i\<close> be the first index, below the number of heads and the lengths of
  the two lists of modes, at which one of the two modes is not \<^verbatim>\<open>per_sequence\<close> or
  \<^verbatim>\<open>per_sequence_continuous\<close> (\<^verbatim>\<open>per_token\<close> for one). Then \<open>forward\<close> raises
  \<^verbatim>\<open>ValueError\<close> with a message that names the offending mode (the mode of encoder 1 if
  that one is unsupported, else the mode of encoder 2). The heads before \<open>i\<close> have run by
  then, in order; head \<open>i\<close> and the heads after it never run.
\<close>

theorem forward_fails_at_first_unsupported_mode:
  assumes "i < length (prediction_heads m)"
    and "i < length (lm1_output_types m)"
    and "i < length (lm2_output_types m)"
    and "\<forall>j<i. valid_mode (lm1_output_types m ! j) \<and> valid_mode (lm2_output_types m ! j)"
    and "\<not> (valid_mode (lm1_output_types m ! i) \<and> valid_mode (lm2_output_types m ! i))"
  shows "forward m kwargs =
     ([EncoderForward 1, EncoderForward 2] @ map HeadForward [0..<i],
      Inl (unknown_strategy (if valid_mode (lm1_output_types m ! i) then lm2_output_types m ! i
                             else lm1_output_types m ! i)))"
proof -
  let ?zs = "zip (prediction_heads m) (zip (lm1_output_types m) (lm2_output_types m))"
  have len: "i < length ?zs" using assms(1-3) by simp
  have split: "?zs = take i ?zs @ ?zs ! i # drop (Suc i) ?zs"
    using len by (rule id_take_nth_drop)
  have zi: "?zs ! i = (prediction_heads m ! i, lm1_output_types m ! i, lm2_output_types m ! i)"
    using assms(1-3) by simp
  have pre: "\<forall>(h, a, b) \<in> set (take i ?zs). valid_mode a \<and> valid_mode b"
  proof clarify
    fix h a b
    assume "(h, a, b) \<in> set (take i ?zs)"
    then obtain j where j: "j < i" "take i ?zs ! j = (h, a, b)" "j < length ?zs"
      using len by (auto simp: in_set_conv_nth)
    then have "?zs ! j = (h, a, b)" by simp
    then have "a = lm1_output_types m ! j" "b = lm2_output_types m ! j"
      using j(3) by simp_all
    then show "valid_mode a \<and> valid_mode b" using assms(4) j(1) by simp
  qed
  have lt: "length (take i ?zs) = i" using len by simp
  have "forward_heads (dropout1 m) (dropout2 m) p1 p2 0 ?zs calls acc =
     (calls @ map HeadForward [0..<i],
      Inl (unknown_strategy (if valid_mode (lm1_output_types m ! i) then lm2_output_types m ! i
                             else lm1_output_types m ! i)))" for p1 p2 calls acc
    using forward_heads_first_invalid [OF pre assms(5), of "dropout1 m" "dropout2 m" p1 p2 0
        "prediction_heads m ! i" "drop (Suc i) ?zs" calls acc]
    unfolding lt zi [symmetric] split [symmetric] by simp
  moreover have "length (prediction_heads m) > 0" using assms(1) by (cases "prediction_heads m") auto
  ultimately show ?thesis
    by (simp add: forward_def forward_lm_def case_prod_beta Let_def)
qed

theorem forward_fails_at_first_unsupported_mode_witness:
  "forward (BiAdaptiveModel_init example_dropout (example_lm ''en'') (example_lm ''deu'')
              [example_head ''a'', example_head ''b'', example_head ''c''] 0.1 ''cpu''
              (Some (StrList [''per_sequence'', ''per_sequence'', ''per_sequence'']))
              (Some (StrList [''per_sequence'', ''per_token'', ''per_sequence'']))
              (None :: (nat, int) aggregation option)) [] =
     ([EncoderForward 1, EncoderForward 2, HeadForward 0],
      Inl (ValueError ''Unknown extraction strategy from DPR model: per_token''))"
  using forward_fails_at_first_unsupported_mode
    [of 1 "BiAdaptiveModel_init example_dropout (example_lm ''en'') (example_lm ''deu'')
              [example_head ''a'', example_head ''b'', example_head ''c''] 0.1 ''cpu''
              (Some (StrList [''per_sequence'', ''per_sequence'', ''per_sequence'']))
              (Some (StrList [''per_sequence'', ''per_token'', ''per_sequence'']))
              (None :: (nat, int) aggregation option)" "[]"]
  by (simp add: BiAdaptiveModel_init_def valid_mode_def unknown_strategy_def)

text \<open>
  C6 as stated fails: when the unsupported mode belongs to the second head, the first
  head's forward computation has run before the error is raised.
\<close>

theorem forward_fail_fast_counterexample:
  "fst (forward (BiAdaptiveModel_init example_dropout (example_lm ''en'') (example_lm ''deu'')
              [example_head ''a'', example_head ''b''] 0.1 ''cpu''
              (Some (StrList [''per_sequence'', ''per_token'']))
              (Some (StrList [''per_sequence'', ''per_sequence'']))
              (None :: (nat, int) aggregation option)) []) =
     [EncoderForward 1, EncoderForward 2, HeadForward 0] \<and>
   snd (forward (BiAdaptiveModel_init example_dropout (example_lm ''en'') (example_lm ''deu'')
              [example_head ''a'', example_head ''b''] 0.1 ''cpu''
              (Some (StrList [''per_sequence'', ''per_token'']))
              (Some (StrList [''per_sequence'', ''per_sequence'']))
              (None :: (nat, int) aggregation option)) []) =
     Inl (ValueError ''Unknown extraction strategy from DPR model: per_token'')"
  by (simp add: forward_def forward_lm_def BiAdaptiveModel_init_def lm_to_def ph_to_def
      example_lm_def example_head_def valid_mode_def unknown_strategy_def)

section \<open>The default aggregation of the losses\<close>

lemma loss_heads_all_connected:
  "\<forall>(h, l) \<in> set zs. label_tensor_name h \<noteq> None \<Longrightarrow>
   loss_heads kwargs i zs calls acc =
     (calls @ map HeadLogitsToLoss [i..<i + length zs],
      Inr (acc @ map (\<lambda>(h, l). ph_logits_to_loss h l kwargs) zs))"
proof (induction zs arbitrary: i calls acc)
  case Nil
  then show ?case by simp
next
  case (Cons z zs)
  obtain h l where z: "z = (h, l)" by (cases z) auto
  have "[i..<i + length (z # zs)] = i # [Suc i..<Suc i + length zs]"
    using upt_Suc_shift [of i "length zs"] by simp
  then show ?case
    using Cons.IH [of "Suc i"] Cons.prems by (auto simp: z simp del: upt_Suc)
qed

lemma loss_heads_first_unconnected:
  "\<forall>(h, l) \<in> set pre. label_tensor_name h \<noteq> None \<Longrightarrow> label_tensor_name h = None \<Longrightarrow>
   loss_heads kwargs i (pre @ (h, l) # post) calls acc =
     (calls @ map HeadLogitsToLoss [i..<i + length pre], Inl (not_connected (task_name h)))"
proof (induction pre arbitrary: i calls acc)
  case Nil
  then show ?case by simp
next
  case (Cons z pre)
  obtain h' l' where z: "z = (h', l')" by (cases z) auto
  have "[i..<i + length (z # pre)] = i # [Suc i..<Suc i + length pre]"
    using upt_Suc_shift [of i "length pre"] by simp
  then show ?case
    using Cons.IH [of "Suc i"] Cons.prems by (auto simp: z simp del: upt_Suc)
qed

lemma py_sum_from_Vec:
  fixes acc :: "('n::plus) list"
  shows "\<forall>v \<in> set ts. length v = length acc \<Longrightarrow>
   py_sum_from (Vec acc) ts =
     Inr (Vec (map (\<lambda>j. foldl (+) (acc ! j) (map (\<lambda>v. v ! j) ts)) [0..<length acc]))"
proof (induction ts arbitrary: acc)
  case Nil
  then show ?case by (simp add: map_nth)
next
  case (Cons t ts)
  let ?acc' = "map2 (+) acc t"
  have lt: "length t = length acc" using Cons.prems by simp
  then have la: "length ?acc' = length acc" by simp
  have rest: "\<forall>v \<in> set ts. length v = length ?acc'" using Cons.prems la by simp
  have step: "py_sum_from (Vec acc) (t # ts) = py_sum_from (Vec ?acc') ts"
    using lt by (simp add: ebind_def)
  have "map (\<lambda>j. foldl (+) (?acc' ! j) (map (\<lambda>v. v ! j) ts)) [0..<length acc] =
        map (\<lambda>j. foldl (+) (acc ! j) (map (\<lambda>v. v ! j) (t # ts))) [0..<length acc]"
    using lt by (intro map_cong) auto
  then show ?case
    using Cons.IH [OF rest] step la by simp
qed

lemma loss_per_head_sum_same_length:
  fixes losses :: "('n::{zero,plus}) list list"
  assumes "\<forall>v \<in> set losses. length v = n"
  shows "loss_per_head_sum losses step batch =
     Inr (if losses = [] then Scalar 0
          else Vec (map (\<lambda>j. foldl (+) 0 (map (\<lambda>v. v ! j) losses)) [0..<n]))"
proof (cases losses)
  case Nil
  then show ?thesis by (simp add: loss_per_head_sum_def)
next
  case (Cons t ts)
  let ?acc = "map (\<lambda>x. 0 + x) t"
  have lt: "length t = n" and rest: "\<forall>v \<in> set ts. length v = length ?acc"
    using assms Cons by simp_all
  have first: "py_sum_from (Scalar 0) (t # ts) = py_sum_from (Vec ?acc) ts"
    by (simp add: ebind_def)
  have "map (\<lambda>j. foldl (+) (?acc ! j) (map (\<lambda>v. v ! j) ts)) [0..<length ?acc] =
        map (\<lambda>j. foldl (+) 0 (map (\<lambda>v. v ! j) (t # ts))) [0..<n]"
    using lt by (intro map_cong) auto
  then show ?thesis
    using py_sum_from_Vec [OF rest] first Cons by (simp add: loss_per_head_sum_def)
qed

text \<open>
  Where addition is associative with \<open>0\<close> as its unit, adding from the left is the sum
  of the list.
\<close>

lemma foldl_plus_sum_list:
  fixes a :: "'n::monoid_add"
  shows "foldl (+) a xs = a + sum_list xs"
  by (induction xs arbitrary: a) (simp_all add: add.assoc)

text \<open>
  C3 (amended). For every model constructed with \<^verbatim>\<open>loss_aggregation_fn\<close> left unset:
  when every head that is paired with a logits entry is connected and the loss vectors
  of these heads all have the per-sample length \<open>n\<close>, \<open>logits_to_loss\<close> returns their
  element-wise sum, the tensor whose \<open>j\<close>-th element is \<open>0\<close> plus the \<open>j\<close>-th elements of
  the loss vectors, added in the order of the heads; these are the loss vectors of all
  \<open>N\<close> heads when the logits hold \<open>N\<close> entries. When no head is paired with an entry the
  result is the number \<open>0\<close>. For two heads with the loss vectors \<open>[1, 2, 3]\<close> and
  \<open>[4, 5, 6]\<close> the result is \<open>[5, 7, 9]\<close>.
\<close>

theorem default_aggregation_elementwise_sum:
  fixes heads :: "('a, 'n::{zero,plus}) prediction_head list"
  assumes "\<forall>(h, l) \<in> set (zip heads logits).
             label_tensor_name h \<noteq> None \<and> length (ph_logits_to_loss h l kwargs) = n"
  shows "snd (logits_to_loss (BiAdaptiveModel_init dropout_of lm1 lm2 heads prob dev a1 a2 None)
                logits step kwargs) =
     Inr (if zip heads logits = [] then Scalar 0
          else Vec (map (\<lambda>j. foldl (+) 0 (map (\<lambda>(h, l). ph_logits_to_loss h l kwargs ! j)
                                             (zip heads logits)))
                     [0..<n]))"
proof -
  let ?m = "BiAdaptiveModel_init dropout_of lm1 lm2 heads prob dev a1 a2 None"
  let ?zs = "zip (prediction_heads ?m) logits"
  let ?losses = "map (\<lambda>(h, l). ph_logits_to_loss h l kwargs) (zip heads logits)"
  have zs: "?zs = map (\<lambda>(h, l). (ph_to dev h, l)) (zip heads logits)"
    by (simp add: BiAdaptiveModel_init_def zip_map1)
  have connected: "\<forall>(h, l) \<in> set ?zs. label_tensor_name h \<noteq> None"
    using assms unfolding zs by (auto simp: ph_to_def)
  have losses: "map (\<lambda>(h, l). ph_logits_to_loss h l kwargs) ?zs = ?losses"
    unfolding zs by (simp add: ph_to_def case_prod_beta)
  have per_head: "snd (logits_to_loss_per_head ?m logits kwargs) = Inr ?losses"
    using loss_heads_all_connected [OF connected, of kwargs 0 "[]" "[]"] losses
    by (simp add: logits_to_loss_per_head_def)
  have same: "\<forall>v \<in> set ?losses. length v = n"
    using assms by auto
  have agg: "loss_aggregation_fn ?m = loss_per_head_sum"
    by (simp add: BiAdaptiveModel_init_def)
  have "snd (logits_to_loss ?m logits step kwargs) = loss_per_head_sum ?losses step kwargs"
    using per_head agg by (simp add: logits_to_loss_def ebind_def case_prod_beta)
  also have "\<dots> = Inr (if ?losses = [] then Scalar 0
          else Vec (map (\<lambda>j. foldl (+) 0 (map (\<lambda>v. v ! j) ?losses)) [0..<n]))"
    by (rule loss_per_head_sum_same_length [OF same])
  also have "\<dots> = Inr (if zip heads logits = [] then Scalar 0
          else Vec (map (\<lambda>j. foldl (+) 0 (map (\<lambda>(h, l). ph_logits_to_loss h l kwargs ! j)
                                             (zip heads logits)))
                     [0..<n]))"
    by (simp add: comp_def case_prod_unfold)
  finally show ?thesis .
qed

theorem default_aggregation_elementwise_sum_witness:
  "snd (logits_to_loss
          (BiAdaptiveModel_init example_dropout (example_lm ''en'') (example_lm ''deu'')
             [(example_head ''a'')\<lparr>label_tensor_name := Some ''label_a'',
                                    ph_logits_to_loss := (\<lambda>logits kwargs. [1, 2, 3])\<rparr>,
              (example_head ''b'')\<lparr>label_tensor_name := Some ''label_b'',
                                    ph_logits_to_loss := (\<lambda>logits kwargs. [4, 5, 6])\<rparr>]
             0.1 ''cpu'' None None None)
          [PyNone, PyNone] None []) =
     Inr (Vec [5, 7, 9])"
  using default_aggregation_elementwise_sum
    [of "[(example_head ''a'')\<lparr>label_tensor_name := Some ''label_a'',
                                    ph_logits_to_loss := (\<lambda>logits kwargs. [1, 2, 3])\<rparr>,
              (example_head ''b'')\<lparr>label_tensor_name := Some ''label_b'',
                                    ph_logits_to_loss := (\<lambda>logits kwargs. [4, 5, 6])\<rparr>]"
        "[PyNone, PyNone]" "[]" 3 example_dropout "example_lm ''en''" "example_lm ''deu''"
        "0.1" "''cpu''" None None None]
  by (simp add: example_head_def upt_rec)

text \<open>
  C3 as stated fails. The heads of a freshly constructed model are not connected, and
  \<open>logits_to_loss\<close> raises \<^verbatim>\<open>AssertionError\<close> instead of returning a sum. With both heads
  connected and one logits entry, only the first head is paired with an entry and the
  result is its loss vector alone. With loss vectors of the lengths 3 and 2 the addition
  of the tensors raises \<^verbatim>\<open>RuntimeError\<close>.
\<close>

theorem default_aggregation_counterexample:
  "snd (logits_to_loss
          (BiAdaptiveModel_init example_dropout (example_lm ''en'') (example_lm ''deu'')
             [(example_head ''a'')\<lparr>ph_logits_to_loss := (\<lambda>logits kwargs. [1, 2, 3])\<rparr>,
              (example_head ''b'')\<lparr>ph_logits_to_loss := (\<lambda>logits kwargs. [4, 5, 6])\<rparr>]
             0.1 ''cpu'' None None None)
          [PyNone, PyNone] None []) =
     Inl (not_connected ''a'') \<and>
   snd (logits_to_loss
          (BiAdaptiveModel_init example_dropout (example_lm ''en'') (example_lm ''deu'')
             [(example_head ''a'')\<lparr>label_tensor_name := Some ''label_a'',
                                    ph_logits_to_loss := (\<lambda>logits kwargs. [1, 2, 3])\<rparr>,
              (example_head ''b'')\<lparr>label_tensor_name := Some ''label_b'',
                                    ph_logits_to_loss := (\<lambda>logits kwargs. [4, 5, 6])\<rparr>]
             0.1 ''cpu'' None None None)
          [PyNone] None []) =
     Inr (Vec [1, 2, 3]) \<and>
   snd (logits_to_loss
          (BiAdaptiveModel_init example_dropout (example_lm ''en'') (example_lm ''deu'')
             [(example_head ''a'')\<lparr>label_tensor_name := Some ''label_a'',
                                    ph_logits_to_loss := (\<lambda>logits kwargs. [1, 2, 3])\<rparr>,
              (example_head ''b'')\<lparr>label_tensor_name := Some ''label_b'',
                                    ph_logits_to_loss := (\<lambda>logits kwargs. [4, 5])\<rparr>]
             0.1 ''cpu'' None None None)
          [PyNone, PyNone] None []) =
     Inl (RuntimeError size_mismatch)"
  by (simp add: logits_to_loss_def logits_to_loss_per_head_def BiAdaptiveModel_init_def
      example_head_def ph_to_def ebind_def loss_per_head_sum_def)

section \<open>Heads that are not connected\<close>

text \<open>
  C7 (amended). Let \<open>i\<close> be the first index of a head without the attribute
  \<^verbatim>\<open>label_tensor_name\<close>, and let the logits hold an entry for it (\<open>i\<close> is below the
  number of logits entries). Then \<open>logits_to_loss\<close> raises \<^verbatim>\<open>AssertionError\<close> with the
  message that names the task of head \<open>i\<close>, after the losses of the heads before \<open>i\<close> and
  before the loss of head \<open>i\<close> or of any later head is computed; no aggregated loss is
  returned, whatever the aggregation function is.
\<close>

theorem logits_to_loss_unconnected_head:
  assumes "i < length (prediction_heads m)"
    and "i < length logits"
    and "\<forall>j<i. label_tensor_name (prediction_heads m ! j) \<noteq> None"
    and "label_tensor_name (prediction_heads m ! i) = None"
  shows "logits_to_loss m logits step kwargs =
     (map HeadLogitsToLoss [0..<i], Inl (not_connected (task_name (prediction_heads m ! i))))"
proof -
  let ?zs = "zip (prediction_heads m) logits"
  have len: "i < length ?zs" using assms(1,2) by simp
  have split: "?zs = take i ?zs @ ?zs ! i # drop (Suc i) ?zs"
    using len by (rule id_take_nth_drop)
  have zi: "?zs ! i = (prediction_heads m ! i, logits ! i)"
    using assms(1,2) by simp
  have pre: "\<forall>(h, l) \<in> set (take i ?zs). label_tensor_name h \<noteq> None"
  proof -
    have "label_tensor_name h \<noteq> None" if "(h, l) \<in> set (take i ?zs)" for h l
    proof -
      from that obtain j where j: "j < i" "take i ?zs ! j = (h, l)" "j < length ?zs"
        using len by (auto simp: in_set_conv_nth)
      then have "?zs ! j = (h, l)" by simp
      then have "h = prediction_heads m ! j" using j(3) by simp
      with assms(3) j(1) show ?thesis by simp
    qed
    then show ?thesis by auto
  qed
  have lt: "length (take i ?zs) = i" using len by simp
  have "loss_heads kwargs 0 ?zs [] [] =
     (map HeadLogitsToLoss [0..<i], Inl (not_connected (task_name (prediction_heads m ! i))))"
    using loss_heads_first_unconnected [OF pre assms(4), of kwargs 0 "logits ! i"
        "drop (Suc i) ?zs" "[]" "[]"]
    unfolding lt zi [symmetric] split [symmetric] by simp
  then show ?thesis
    by (simp add: logits_to_loss_def logits_to_loss_per_head_def ebind_def)
qed

theorem logits_to_loss_unconnected_head_witness:
  "logits_to_loss
     (BiAdaptiveModel_init example_dropout (example_lm ''en'') (example_lm ''deu'')
        [(example_head ''a'')\<lparr>label_tensor_name := Some ''label_a''\<rparr>, example_head ''b'']
        0.1 ''cpu'' None None None)
     [PyNone, PyNone] None [] =
   ([HeadLogitsToLoss 0], Inl (not_connected ''b''))"
  using logits_to_loss_unconnected_head
    [of 1 "BiAdaptiveModel_init example_dropout (example_lm ''en'') (example_lm ''deu'')
        [(example_head ''a'')\<lparr>label_tensor_name := Some ''label_a''\<rparr>, example_head ''b'']
        0.1 ''cpu'' None None None" "[PyNone, PyNone]" None "[]"]
  by (simp add: BiAdaptiveModel_init_def example_head_def ph_to_def)

text \<open>
  C7 as stated fails: a head without \<^verbatim>\<open>label_tensor_name\<close> that no logits entry is
  paired with is never checked. A model of two heads constructed with the default
  extraction modes returns one logits entry from \<open>forward\<close>; with the first head connected
  and the second not, \<open>logits_to_loss\<close> on that entry returns the loss of the first head.
\<close>

theorem logits_to_loss_unconnected_head_counterexample:
  "label_tensor_name
     (prediction_heads
        (BiAdaptiveModel_init example_dropout (example_lm ''en'') (example_lm ''deu'')
           [(example_head ''a'')\<lparr>label_tensor_name := Some ''label_a''\<rparr>, example_head ''b'']
           0.1 ''cpu'' None None None) ! 1) = None \<and>
   snd (forward
     (BiAdaptiveModel_init example_dropout (example_lm ''en'') (example_lm ''deu'')
        [(example_head ''a'')\<lparr>label_tensor_name := Some ''label_a''\<rparr>, example_head ''b'']
        0.1 ''cpu'' None None None) []) =
     Inr (PyList [PyTuple [PyStr ''a'', PyOpaque 2, PyOpaque 3]]) \<and>
   logits_to_loss
     (BiAdaptiveModel_init example_dropout (example_lm ''en'') (example_lm ''deu'')
        [(example_head ''a'')\<lparr>label_tensor_name := Some ''label_a''\<rparr>, example_head ''b'']
        0.1 ''cpu'' None None None)
     [PyTuple [PyStr ''a'', PyOpaque 2, PyOpaque 3]] None [] =
   ([HeadLogitsToLoss 0], Inr (Vec [1, 2, 3]))"
  by (simp add: logits_to_loss_def logits_to_loss_per_head_def BiAdaptiveModel_init_def
      forward_def forward_lm_def lm_to_def example_lm_def valid_mode_def default_output_types_def
      example_head_def example_dropout_def ph_to_def ebind_def loss_per_head_sum_def)

text \<open>
  After \<^verbatim>\<open>connect_heads_with_processor\<close> has returned without an exception, every head
  has its \<^verbatim>\<open>label_tensor_name\<close>, and the assertion of \<open>logits_to_loss\<close> holds for each.
\<close>

lemma connect_heads_connected:
  "connect_heads ts require_labels hs = (hs', Inr u) \<Longrightarrow>
   length hs' = length hs \<and> (\<forall>h \<in> set hs'. label_tensor_name h \<noteq> None)"
proof (induction hs arbitrary: hs')
  case Nil
  then show ?case by simp
next
  case (Cons h hs)
  then show ?case
    by (auto simp: Let_def split: option.splits if_splits prod.splits)
qed

section \<open>Formatted predictions\<close>

lemma read_global_pick_single_fn: "read_global ''pick_single_fn'' v = Inl (NameError ''pick_single_fn'')"
  by (simp add: read_global_def module_globals_def)

lemma formatted_preds_many_heads_raises:
  "\<exists>calls e. formatted_preds_many_heads stack heads kwargs = (calls, Inl e)"
  by (auto simp: formatted_preds_many_heads_def read_global_pick_single_fn ebind_def Let_def
      split: sum.splits prod.splits)

text \<open>
  With any number of heads other than one, \<open>formatted_preds\<close> ends in an exception: no
  input makes it return.
\<close>

lemma formatted_preds_no_single_head_raises:
  "length heads \<noteq> 1 \<Longrightarrow> \<exists>e. snd (formatted_preds stack heads logits lm1 lm2 kwargs) = Inl e"
  using formatted_preds_many_heads_raises [of stack heads kwargs]
  by (auto simp: formatted_preds_def formatted_preds_no_head_def read_local_def ebind_def Let_def)

text \<open>
  C4. The claim: with more than one head, \<open>formatted_preds\<close> returns the merged result when
  exactly one head has \<^verbatim>\<open>merge_formatted_preds\<close>, and the per-head buckets otherwise. The
  code runs every head's \<^verbatim>\<open>formatted_preds\<close> and then raises \<^verbatim>\<open>NameError\<close>, because the
  module never imports \<^verbatim>\<open>pick_single_fn\<close>: here for two heads, first with exactly one
  head that has \<^verbatim>\<open>merge_formatted_preds\<close>, then with none.
\<close>

theorem formatted_preds_two_heads_name_error:
  "formatted_preds (\<lambda>preds. Inr preds)
     [(example_head ''a'')\<lparr>merge_formatted_preds := Some (\<lambda>per_head. PyStr ''merged'')\<rparr>,
      example_head ''b'']
     PyNone (example_lm ''en'') (example_lm ''deu'')
     [(''preds'', PyList [PyList [PyOpaque 1], PyList [PyOpaque 2]]),
      (''baskets'', PyList [PyObject [(''samples'', PyList [PyOpaque 7])]])] =
   ([HeadFormattedPreds 0, HeadFormattedPreds 1], Inl (NameError ''pick_single_fn'')) \<and>
   formatted_preds (\<lambda>preds. Inr preds)
     [example_head ''a'', example_head ''b'']
     PyNone (example_lm ''en'') (example_lm ''deu'')
     [(''preds'', PyList [PyList [PyOpaque 1], PyList [PyOpaque 2]]),
      (''baskets'', PyList [PyObject [(''samples'', PyList [PyOpaque 7])]])] =
   ([HeadFormattedPreds 0, HeadFormattedPreds 1], Inl (NameError ''pick_single_fn''))"
  by (simp add: formatted_preds_def formatted_preds_many_heads_def read_global_pick_single_fn
      kw_get_def ebind_def Let_def)

text \<open>
  C5. The claim: with no head, \<open>formatted_preds\<close> calls no head, calls the formatter of
  both encoders on the logits, and returns what they produce. The code makes the two
  calls and no other, and then raises \<^verbatim>\<open>UnboundLocalError\<close>: the results are assigned to
  \<^verbatim>\<open>preds1_final\<close> and \<^verbatim>\<open>preds2_final\<close>, and the function returns \<^verbatim>\<open>preds_final\<close>.
\<close>

theorem formatted_preds_no_head_unbound:
  "formatted_preds stack [] logits lm1 lm2 kwargs =
     ([EncoderFormattedPreds 1, EncoderFormattedPreds 2], Inl (UnboundLocalError ''preds_final''))"
  by (simp add: formatted_preds_def formatted_preds_no_head_def read_local_def ebind_def Let_def)

section \<open>Save and load\<close>

text \<open>
  C8. The claim: \<open>save\<close> followed by \<open>load\<close> gives a model with the same number of heads,
  the same order of heads and the same languages. Python orders the config files as
  strings, in which \<^verbatim>\<open>prediction_head_10_config.json\<close> comes before
  \<^verbatim>\<open>prediction_head_1_config.json\<close> (the character \<^verbatim>\<open>0\<close> is smaller than \<^verbatim>\<open>_\<close>): a model
  of eleven heads saved into an empty directory is loaded with its last head in second
  place. The number of heads and the languages are the saved ones.
\<close>

theorem save_load_eleven_heads:
  "map task_name (prediction_heads
     (BiAdaptiveModel_init example_dropout (example_lm ''en'') (example_lm ''deu'')
        (map (\<lambda>i. example_head (''task'' @ decimal i)) [0..<11]) 0.1 ''cpu'' None None None)) =
     [''task0'', ''task1'', ''task2'', ''task3'', ''task4'', ''task5'', ''task6'', ''task7'',
      ''task8'', ''task9'', ''task10''] \<and>
   ebind (save example_collaborators
            (BiAdaptiveModel_init example_dropout (example_lm ''en'') (example_lm ''deu'')
               (map (\<lambda>i. example_head (''task'' @ decimal i)) [0..<11]) 0.1 ''cpu'' None None None)
            [''out''] [])
     (\<lambda>fs. ebind (load example_collaborators fs (PyPath [''out'']) ''cpu'' True ''lm1'' ''lm2'' None)
        (\<lambda>m. Inr (map task_name (prediction_heads m), get_language m))) =
     Inr ([''task0'', ''task10'', ''task1'', ''task2'', ''task3'', ''task4'', ''task5'', ''task6'',
           ''task7'', ''task8'', ''task9''], (''en'', ''deu''))"
  by code_simp

text \<open>
  With three heads the order is the saved one: below ten heads the indices are one
  character each.
\<close>

lemma save_load_three_heads:
  "ebind (save example_collaborators
            (BiAdaptiveModel_init example_dropout (example_lm ''en'') (example_lm ''deu'')
               [example_head ''a'', example_head ''b'', example_head ''c''] 0.1 ''cpu'' None None None)
            [''out''] [])
     (\<lambda>fs. ebind (load example_collaborators fs (PyPath [''out'']) ''cpu'' True ''lm1'' ''lm2'' None)
        (\<lambda>m. Inr (map task_name (prediction_heads m), get_language m))) =
     Inr ([''a'', ''b'', ''c''], (''en'', ''deu''))"
  by code_simp

section \<open>The choice of the backend\<close>

text \<open>
  C9. For every load directory, the polymorphic \<open>load\<close> calls the \<open>load\<close> of
  \<^verbatim>\<open>ONNXBiAdaptiveModel\<close> if the directory holds the file \<^verbatim>\<open>model.onnx\<close>, whatever else it
  holds, and the \<open>load\<close> of \<^verbatim>\<open>BiAdaptiveModel\<close> otherwise; what it returns is what that
  method returns, so it never returns a trainable model from a directory with the marker
  nor a frozen one from a directory without it.
\<close>

theorem polymorphic_load_selects_backend:
  assumes "kw_load_dir kwargs = Some d"
  shows "BaseBiAdaptiveModel_load C E fs kwargs =
     (if is_file fs (to_Path d @ [''model.onnx''])
      then ([ClassLoad ''ONNXBiAdaptiveModel''],
            map_sum id IsONNXBiAdaptiveModel (ONNXBiAdaptiveModel_load_with_kwargs C E fs kwargs))
      else ([ClassLoad ''BiAdaptiveModel''],
            map_sum id IsBiAdaptiveModel (load_with_kwargs C fs kwargs))) \<and>
   (is_file fs (to_Path d @ [''model.onnx'']) \<longrightarrow>
      (\<forall>m. snd (BaseBiAdaptiveModel_load C E fs kwargs) \<noteq> Inr (IsBiAdaptiveModel m))) \<and>
   (\<not> is_file fs (to_Path d @ [''model.onnx'']) \<longrightarrow>
      (\<forall>m. snd (BaseBiAdaptiveModel_load C E fs kwargs) \<noteq> Inr (IsONNXBiAdaptiveModel m)))"
  using assms
  by (auto simp: BaseBiAdaptiveModel_load_def subclasses_load_def map_sum_def split: sum.splits)

theorem polymorphic_load_selects_backend_witness:
  "is_file example_export_dir [''export'', ''model.onnx''] \<and>
   is_file example_export_dir [''export'', ''prediction_head_0_config.json''] \<and>
   fst (BaseBiAdaptiveModel_load example_collaborators example_onnx_env example_export_dir
          (example_load_kwargs ''export'')) = [ClassLoad ''ONNXBiAdaptiveModel''] \<and>
   \<not> is_file (AList.delete [''export'', ''model.onnx''] example_export_dir)
         [''export'', ''model.onnx''] \<and>
   fst (BaseBiAdaptiveModel_load example_collaborators example_onnx_env
          (AList.delete [''export'', ''model.onnx''] example_export_dir)
          (example_load_kwargs ''export'')) = [ClassLoad ''BiAdaptiveModel'']"
proof -
  have marker: "is_file example_export_dir [''export'', ''model.onnx'']"
    and config: "is_file example_export_dir [''export'', ''prediction_head_0_config.json'']"
    and no_marker: "\<not> is_file (AList.delete [''export'', ''model.onnx''] example_export_dir)
         [''export'', ''model.onnx'']"
    by (simp_all add: example_export_dir_def is_file_def)
  have d: "kw_load_dir (example_load_kwargs ''export'') = Some (PyPath [''export''])"
    by (simp add: example_load_kwargs_def)
  show ?thesis
    using polymorphic_load_selects_backend
        [OF d, of example_collaborators example_onnx_env example_export_dir]
      polymorphic_load_selects_backend
        [OF d, of example_collaborators example_onnx_env
           "AList.delete [''export'', ''model.onnx''] example_export_dir"]
      marker config no_marker
    by simp
qed

section \<open>Loading the frozen backend\<close>

lemma unpack2_two: "length files = 2 \<Longrightarrow> \<exists>a b. unpack2 files = Inr (a, b)"
  by (cases files rule: unpack2.cases) auto

lemma unpack2_other: "length files \<noteq> 2 \<Longrightarrow> \<exists>msg. unpack2 files = Inl (ValueError msg)"
  by (cases files rule: unpack2.cases) auto

lemma onnx_load_after_listing:
  assumes "ort_installed E"
    and "ort_InferenceSession E fs (p @ [''model.onnx'']) = Inr session"
    and "get_prediction_head_files fs (PyPath p) = Inr files"
  shows "ONNXBiAdaptiveModel_load C E fs (PyPath p) dev =
     ebind (unpack2 files) (\<lambda>(ignored, ph_config_files). Inl (not_iterable ''PosixPath''))"
  using assms
  by (auto simp: ONNXBiAdaptiveModel_load_def ebind_def iter_Path_def split: sum.splits)

lemma onnx_load_raises: "\<exists>e. ONNXBiAdaptiveModel_load C E fs load_dir dev = Inl e"
  by (auto simp: ONNXBiAdaptiveModel_load_def ebind_def iter_Path_def split: sum.splits)

text \<open>
  C10. \<^verbatim>\<open>ONNXBiAdaptiveModel.load\<close> never returns a model: for every directory and
  device it ends in an exception. When the session has been created and the directory
  listed, unpacking the list of config files into two targets raises \<^verbatim>\<open>ValueError\<close> for
  every number of files other than two; for two files the second one, a single path, is
  iterated over, which raises \<^verbatim>\<open>TypeError\<close>.
\<close>

theorem onnx_load_never_returns:
  "(\<exists>e. ONNXBiAdaptiveModel_load C E fs load_dir dev = Inl e) \<and>
   (ort_installed E \<and> ort_InferenceSession E fs (p @ [''model.onnx'']) = Inr session \<and>
    get_prediction_head_files fs (PyPath p) = Inr files \<longrightarrow>
      (length files \<noteq> 2 \<longrightarrow>
         (\<exists>msg. ONNXBiAdaptiveModel_load C E fs (PyPath p) dev = Inl (ValueError msg))) \<and>
      (length files = 2 \<longrightarrow>
         ONNXBiAdaptiveModel_load C E fs (PyPath p) dev = Inl (not_iterable ''PosixPath'')))"
proof (intro conjI impI)
  show "\<exists>e. ONNXBiAdaptiveModel_load C E fs load_dir dev = Inl e"
    by (rule onnx_load_raises)
next
  assume a: "ort_installed E \<and> ort_InferenceSession E fs (p @ [''model.onnx'']) = Inr session \<and>
    get_prediction_head_files fs (PyPath p) = Inr files"
  assume "length files \<noteq> 2"
  then obtain msg where "unpack2 files = Inl (ValueError msg)"
    using unpack2_other by blast
  then show "\<exists>msg. ONNXBiAdaptiveModel_load C E fs (PyPath p) dev = Inl (ValueError msg)"
    using onnx_load_after_listing [of E fs p session files C dev] a by (simp add: ebind_def)
next
  assume a: "ort_installed E \<and> ort_InferenceSession E fs (p @ [''model.onnx'']) = Inr session \<and>
    get_prediction_head_files fs (PyPath p) = Inr files"
  assume "length files = 2"
  then obtain x y where "unpack2 files = Inr (x, y)"
    using unpack2_two by blast
  then show "ONNXBiAdaptiveModel_load C E fs (PyPath p) dev = Inl (not_iterable ''PosixPath'')"
    using onnx_load_after_listing [of E fs p session files C dev] a by (simp add: ebind_def)
qed

theorem onnx_load_never_returns_witness:
  "get_prediction_head_files example_export_dir (PyPath [''export'']) =
     Inr [[''export'', ''prediction_head_0_config.json''],
          [''export'', ''prediction_head_1_config.json'']] \<and>
   ONNXBiAdaptiveModel_load example_collaborators example_onnx_env example_export_dir
     (PyPath [''export'']) ''cpu'' = Inl (TypeError ''PosixPath object is not iterable'') \<and>
   get_prediction_head_files [([''export''], Directory), ([''export'', ''model.onnx''], File ''graph'')]
     (PyPath [''export'']) = Inr [] \<and>
   ONNXBiAdaptiveModel_load example_collaborators example_onnx_env
     [([''export''], Directory), ([''export'', ''model.onnx''], File ''graph'')]
     (PyPath [''export'']) ''cpu'' =
     Inl (ValueError ''not enough values to unpack (expected 2, got 0)'')"
proof -
  have files: "get_prediction_head_files example_export_dir (PyPath [''export'']) =
     Inr [[''export'', ''prediction_head_0_config.json''],
          [''export'', ''prediction_head_1_config.json'']]"
    by code_simp
  have session: "ort_InferenceSession example_onnx_env example_export_dir
                   ([''export''] @ [''model.onnx'']) = Inr 0"
    by (simp add: example_onnx_env_def example_export_dir_def is_file_def)
  have installed: "ort_installed example_onnx_env"
    by (simp add: example_onnx_env_def)
  have two: "ONNXBiAdaptiveModel_load example_collaborators example_onnx_env example_export_dir
     (PyPath [''export'']) ''cpu'' = Inl (TypeError ''PosixPath object is not iterable'')"
    using onnx_load_never_returns
      [of example_collaborators example_onnx_env example_export_dir "PyPath [''export'']" "''cpu''"
          "[''export'']" 0
          "[[''export'', ''prediction_head_0_config.json''],
            [''export'', ''prediction_head_1_config.json'']]"]
      files session installed
    by (simp add: not_iterable_def)
  have none: "get_prediction_head_files
       [([''export''], Directory), ([''export'', ''model.onnx''], File ''graph'')]
       (PyPath [''export'']) = Inr []"
    by code_simp
  have zero: "ONNXBiAdaptiveModel_load example_collaborators example_onnx_env
     [([''export''], Directory), ([''export'', ''model.onnx''], File ''graph'')]
     (PyPath [''export'']) ''cpu'' =
     Inl (ValueError ''not enough values to unpack (expected 2, got 0)'')"
    using none
    by (simp add: ONNXBiAdaptiveModel_load_def example_onnx_env_def is_file_def ebind_def)
  show ?thesis using files two none zero by simp
qed

end
